theory Spec2Isabelle
  imports Main "HOL-Library.Product_Lexorder"
begin

section \<open>Dates, times and instants\<close>

text \<open>
  A Python \<^verbatim>\<open>date\<close> is modelled by its proleptic Gregorian ordinal
  (\<^verbatim>\<open>date.toordinal()\<close>, day 1 is Monday 0001-01-01), so that
  \<^verbatim>\<open>d - timedelta(days=n)\<close> is subtraction on \<open>int\<close>. The range limits of
  \<^verbatim>\<open>date\<close> (years 1 to 9999) are not modelled.

  A \<^verbatim>\<open>time\<close> is the number of seconds since midnight, and a \<^verbatim>\<open>datetime\<close> is the number
  of seconds since midnight of day 0 on the wall clock of the configured time zone.
  \<^verbatim>\<open>timezone.make_aware\<close> is the identity in this model: the zone is taken to have a
  constant offset.
\<close>

type_synonym date = int
type_synonym time_of_day = int
type_synonym datetime = int

definition weekday :: "date \<Rightarrow> int" where
  \<comment> \<open>\<^verbatim>\<open>date.weekday()\<close>: Monday is 0, Sunday is 6.\<close>
  "weekday d = (d + 6) mod 7"

definition time_hms :: "int \<Rightarrow> int \<Rightarrow> int \<Rightarrow> time_of_day" where
  \<comment> \<open>\<^verbatim>\<open>time(h, m, s)\<close>\<close>
  "time_hms h m s = h * 3600 + m * 60 + s"

definition combine :: "date \<Rightarrow> time_of_day \<Rightarrow> datetime" where
  \<comment> \<open>\<^verbatim>\<open>datetime.combine(d, t)\<close>\<close>
  "combine d t = d * 86400 + t"

definition days :: "int \<Rightarrow> int" where
  \<comment> \<open>\<^verbatim>\<open>timedelta(days=n)\<close> added to a \<^verbatim>\<open>datetime\<close>\<close>
  "days n = n * 86400"

definition minutes :: "int \<Rightarrow> int" where
  \<comment> \<open>\<^verbatim>\<open>timedelta(minutes=n)\<close> added to a \<^verbatim>\<open>datetime\<close>\<close>
  "minutes n = n * 60"

section \<open>The data model (users/models.py)\<close>

text \<open>
  Every Django model is a record; its primary key is the field \<open>id\<close>. Field names carry
  a prefix naming the model (\<open>r_\<close> Reservation, \<open>t_\<close> UserTicket, \<open>s_\<close> UserSubscription,
  \<open>g_\<close> EventGroup, \<open>m_\<close> GroupMembership, \<open>i_\<close> FriendInvitation), since several models
  share field names. A \<^verbatim>\<open>DecimalField\<close> with two decimal places is an \<open>int\<close> of
  hundredths. A nullable field is an \<open>option\<close>.
\<close>

datatype reservation_status = PENDING | CONFIRMED | CANCELLED | COMPLETED

record reservation =
  r_id :: nat
  r_user :: nat
  r_activity_name :: string
  r_activity_description :: string
  r_reservation_date :: date
  r_reservation_time :: time_of_day
  r_venue_name :: string
  r_venue_address :: string
  r_price_plan :: string
  r_price_amount :: int
  r_currency :: string
  r_status :: reservation_status
  r_stripe_payment_intent_id :: string
  r_paid_at :: "datetime option"
  r_participants_count :: nat
  r_special_requests :: string
  r_cancellation_deadline :: "datetime option"

definition is_modifiable :: "reservation \<Rightarrow> datetime \<Rightarrow> bool" where
  \<comment> \<open>\<^verbatim>\<open>Reservation.is_modifiable\<close>, read at the instant \<open>now\<close>\<close>
  "is_modifiable r now =
     (case r_cancellation_deadline r of None \<Rightarrow> False | Some d \<Rightarrow> now < d)"

definition set_cancellation_deadline :: "reservation \<Rightarrow> reservation" where
  \<comment> \<open>\<^verbatim>\<open>Reservation.set_cancellation_deadline\<close>\<close>
  "set_cancellation_deadline r =
     (let event_date = r_reservation_date r;
          days_before_tuesday = (weekday event_date - 1) mod 7;
          tuesday_before = event_date - days_before_tuesday;
          tuesday_before = (if days_before_tuesday = 0 then event_date - 7 else tuesday_before)
      in r\<lparr>r_cancellation_deadline := Some (combine tuesday_before (time_hms 23 59 0))\<rparr>)"

definition reservation_save :: "reservation \<Rightarrow> reservation" where
  \<comment> \<open>\<^verbatim>\<open>Reservation.save\<close>: the deadline is computed only when none is stored yet.\<close>
  "reservation_save r =
     (if r_cancellation_deadline r = None then set_cancellation_deadline r else r)"

datatype ticket_status = ACTIVE | USED | EXPIRED
datatype ticket_source = CANCELLATION | REFUND | PROMOTIONAL | GIFT

record user_ticket =
  t_id :: nat
  t_user :: nat
  t_amount :: int
  t_status :: ticket_status
  t_source :: ticket_source
  t_original_reservation :: "nat option"
  t_used_for_reservation :: "nat option"
  t_expires_at :: "datetime option"
  t_used_at :: "datetime option"
  t_notes :: string

datatype error =
    ValueError        \<comment> \<open>raised by a model method\<close>
  | IntegrityError    \<comment> \<open>raised by the database on a violated constraint\<close>
  | NotFound          \<comment> \<open>HTTP 404\<close>
  | DeadlinePassed    \<comment> \<open>HTTP 400 with \<^verbatim>\<open>deadline_passed\<close>\<close>
  | ValidationError   \<comment> \<open>HTTP 400: a required field is missing or malformed\<close>
  | Expired           \<comment> \<open>HTTP 400: the invitation is no longer valid\<close>
  | Mismatch          \<comment> \<open>HTTP 400: the email is not the invited one\<close>
  | AuthError         \<comment> \<open>HTTP 400: \<^verbatim>\<open>Mot de passe incorrect\<close>\<close>
  | InvalidState      \<comment> \<open>HTTP 400: the entity is in the wrong state for the operation\<close>
  | PaymentError      \<comment> \<open>HTTP 400: the payment cannot be verified or has not succeeded\<close>
  | PaymentRequired   \<comment> \<open>HTTP 402\<close>
  | InternalError     \<comment> \<open>HTTP 500, from the view's \<^verbatim>\<open>except Exception\<close>\<close>

definition ticket_is_valid :: "user_ticket \<Rightarrow> datetime \<Rightarrow> bool" where
  \<comment> \<open>\<^verbatim>\<open>UserTicket.is_valid\<close>, read at the instant \<open>now\<close>\<close>
  "ticket_is_valid t now =
     (if t_status t \<noteq> ACTIVE then False
      else if (case t_expires_at t of None \<Rightarrow> False | Some e \<Rightarrow> now > e) then False
      else True)"

definition use_ticket :: "user_ticket \<Rightarrow> nat \<Rightarrow> datetime \<Rightarrow> error + user_ticket" where
  \<comment> \<open>\<^verbatim>\<open>UserTicket.use_ticket(reservation)\<close>; the reservation is given by its id, and
      \<^verbatim>\<open>raise ValueError\<close> is \<open>Inl ValueError\<close>.\<close>
  "use_ticket t reservation now =
     (if \<not> ticket_is_valid t now then Inl ValueError
      else Inr (t\<lparr>t_status := USED,
                  t_used_for_reservation := Some reservation,
                  t_used_at := Some now\<rparr>))"

datatype subscription_type = MONTHLY | QUARTERLY | SEMESTRIAL
datatype subscription_status = SUB_ACTIVE | SUB_EXPIRED | SUB_CANCELLED

record user_subscription =
  s_id :: nat
  s_user :: nat
  s_subscription_type :: subscription_type
  s_status :: subscription_status
  s_start_date :: datetime
  s_end_date :: datetime
  s_price_paid :: int
  s_reservations_used :: nat
  s_current_reservation :: "nat option"

definition use_for_reservation :: "user_subscription \<Rightarrow> nat \<Rightarrow> user_subscription" where
  \<comment> \<open>\<^verbatim>\<open>UserSubscription.use_for_reservation\<close>\<close>
  "use_for_reservation s reservation =
     s\<lparr>s_current_reservation := Some reservation,
       s_reservations_used := s_reservations_used s + 1\<rparr>"

definition release_reservation :: "user_subscription \<Rightarrow> user_subscription \<times> bool" where
  \<comment> \<open>\<^verbatim>\<open>UserSubscription.release_reservation\<close>; \<^verbatim>\<open>max(0, n - 1)\<close> is subtraction on \<open>nat\<close>.\<close>
  "release_reservation s =
     (if s_current_reservation s \<noteq> None
      then (s\<lparr>s_current_reservation := None,
              s_reservations_used := s_reservations_used s - 1\<rparr>, True)
      else (s, False))"

record event_group =
  g_id :: nat
  g_name :: string
  g_event_date :: date
  g_activity_name :: string
  g_meeting_point_name :: string
  g_meeting_point_address :: string
  g_meeting_time :: time_of_day
  g_location_reveal_time :: "datetime option"
  g_max_participants :: nat
  g_is_confirmed :: bool

record group_membership =
  m_id :: nat
  m_reservation :: nat
  m_group :: nat
  m_joined_at :: datetime

datatype invitation_status = INV_PENDING | INV_ACCEPTED | INV_EXPIRED | INV_USED

record friend_invitation =
  i_id :: nat
  i_inviter :: nat
  i_invited_email :: string
  i_invited_user :: "nat option"
  i_invitation_token :: string
  i_reservation :: nat
  i_status :: invitation_status
  i_message :: string
  i_expires_at :: datetime
  i_accepted_at :: "datetime option"
  i_used_at :: "datetime option"

record user =
  u_id :: nat
  u_email :: string
  u_username :: string
  u_first_name :: string
  u_last_name :: string
  u_password :: string
  u_email_verified :: bool
  u_is_invited_user :: bool
  u_invitation_used :: "nat option"
  u_last_login_at :: "datetime option"

section \<open>The database\<close>

text \<open>
  A table is the list of its rows in insertion order. Each table has a sequence that
  gives the next primary key, as an auto-increment column does. The settings set no
  \<^verbatim>\<open>ATOMIC_REQUESTS\<close> and the views open no transaction, so every write is committed as it
  is made: a view that fails half-way leaves its earlier writes in the database.
  A view is handled at one instant \<open>now\<close>: every \<^verbatim>\<open>timezone.now()\<close> of a request reads
  the same value.
\<close>

record db =
  reservations :: "reservation list"
  tickets :: "user_ticket list"
  subscriptions :: "user_subscription list"
  groups :: "event_group list"
  memberships :: "group_membership list"
  invitations :: "friend_invitation list"
  users :: "user list"
  seq_reservation :: nat
  seq_ticket :: nat
  seq_group :: nat
  seq_membership :: nat
  seq_invitation :: nat
  seq_user :: nat

datatype 'a get_result = DoesNotExist | MultipleObjectsReturned | Found 'a

definition objects_get :: "'a list \<Rightarrow> ('a \<Rightarrow> bool) \<Rightarrow> 'a get_result" where
  \<comment> \<open>\<^verbatim>\<open>Model.objects.get(...)\<close>\<close>
  "objects_get table p =
     (case filter p table of
        [] \<Rightarrow> DoesNotExist
      | [x] \<Rightarrow> Found x
      | _ \<Rightarrow> MultipleObjectsReturned)"

definition newest_first :: "'a list \<Rightarrow> 'a list" where
  \<comment> \<open>\<^verbatim>\<open>Meta.ordering = ['-created_at']\<close> (UserTicket, UserSubscription, FriendInvitation)\<close>
  "newest_first table = rev table"

definition objects_first :: "'a list \<Rightarrow> ('a \<Rightarrow> bool) \<Rightarrow> 'a option" where
  \<comment> \<open>\<^verbatim>\<open>Model.objects.filter(...).first()\<close>, on the rows in the model's ordering\<close>
  "objects_first table p = (case filter p table of [] \<Rightarrow> None | x # _ \<Rightarrow> Some x)"

definition update_row :: "('a \<Rightarrow> nat) \<Rightarrow> 'a \<Rightarrow> 'a list \<Rightarrow> 'a list" where
  \<comment> \<open>\<^verbatim>\<open>obj.save()\<close> of a row that is already stored: the row with its primary key is replaced.\<close>
  "update_row pk x table = map (\<lambda>y. if pk y = pk x then x else y) table"

definition startswith :: "string \<Rightarrow> string \<Rightarrow> bool" where
  \<comment> \<open>\<^verbatim>\<open>s.startswith(p)\<close>\<close>
  "startswith s p = (take (length p) s = p)"

definition ticket_objects_create ::
    "db \<Rightarrow> nat \<Rightarrow> int \<Rightarrow> ticket_status \<Rightarrow> ticket_source \<Rightarrow> nat option \<Rightarrow> datetime option
       \<Rightarrow> string \<Rightarrow> db \<times> user_ticket" where
  \<comment> \<open>\<^verbatim>\<open>UserTicket.objects.create(...)\<close>\<close>
  "ticket_objects_create d user amount st source original_reservation expires_at notes =
     (let t = \<lparr>t_id = seq_ticket d, t_user = user, t_amount = amount, t_status = st,
                t_source = source, t_original_reservation = original_reservation,
                t_used_for_reservation = None, t_expires_at = expires_at, t_used_at = None,
                t_notes = notes\<rparr>
      in (d\<lparr>tickets := tickets d @ [t], seq_ticket := seq_ticket d + 1\<rparr>, t))"

definition reservation_objects_create :: "db \<Rightarrow> reservation \<Rightarrow> db \<times> reservation" where
  \<comment> \<open>\<^verbatim>\<open>Reservation.objects.create(...)\<close>: the row gets the next primary key and goes
      through \<^verbatim>\<open>Reservation.save\<close>. The field \<open>r_id\<close> of the argument is ignored.\<close>
  "reservation_objects_create d row =
     (let r = reservation_save (row\<lparr>r_id := seq_reservation d\<rparr>)
      in (d\<lparr>reservations := reservations d @ [r],
            seq_reservation := seq_reservation d + 1\<rparr>, r))"

definition reservation_update :: "db \<Rightarrow> reservation \<Rightarrow> db" where
  \<comment> \<open>\<^verbatim>\<open>reservation.save()\<close> of a stored reservation\<close>
  "reservation_update d r =
     d\<lparr>reservations := update_row r_id (reservation_save r) (reservations d)\<rparr>"

section \<open>Cancelling a reservation (users/views.py, ReservationCancelView)\<close>

record cancel_response =
  ticket_created :: bool
  ticket_amount :: "int option"

definition release_subscription_of :: "db \<Rightarrow> nat \<Rightarrow> reservation \<Rightarrow> db" where
  \<comment> \<open>The branch \<^verbatim>\<open>if was_paid_with_subscription\<close> of the view.\<close>
  "release_subscription_of d user reservation =
     (case objects_first (newest_first (subscriptions d))
             (\<lambda>s. s_user s = user \<and> s_current_reservation s = Some (r_id reservation)) of
        None \<Rightarrow> d
      | Some subscription \<Rightarrow>
          d\<lparr>subscriptions :=
              update_row s_id (fst (release_reservation subscription)) (subscriptions d)\<rparr>)"

definition reservation_cancel ::
    "db \<Rightarrow> nat \<Rightarrow> nat \<Rightarrow> datetime \<Rightarrow> db \<times> (error + cancel_response)" where
  \<comment> \<open>\<^verbatim>\<open>ReservationCancelView.post(request, reservation_id)\<close> for \<^verbatim>\<open>request.user = user\<close>\<close>
  "reservation_cancel d user reservation_id now =
     (case objects_get (reservations d) (\<lambda>r. r_id r = reservation_id \<and> r_user r = user) of
        DoesNotExist \<Rightarrow> (d, Inl NotFound)
      | MultipleObjectsReturned \<Rightarrow> (d, Inl InternalError)
      | Found reservation \<Rightarrow>
          (let tuesday_before = r_reservation_date reservation - 2;
               deadline = combine tuesday_before (time_hms 23 59 0)
           in if now > deadline then (d, Inl DeadlinePassed)
              else
                (let (d1, created, amount) =
                       (if r_paid_at reservation \<noteq> None then
                          (let was_paid_with_ticket =
                                 (r_stripe_payment_intent_id reservation \<noteq> [] \<and>
                                  startswith (r_stripe_payment_intent_id reservation) ''ticket_'');
                               was_paid_with_subscription =
                                 (r_stripe_payment_intent_id reservation \<noteq> [] \<and>
                                  startswith (r_stripe_payment_intent_id reservation)
                                    ''subscription_'');
                               is_ticket_plan = (r_price_plan reservation = ''TICKET'');
                               d0 = (if was_paid_with_subscription
                                     then release_subscription_of d user reservation else d);
                               should_create_ticket =
                                 (is_ticket_plan \<and> \<not> was_paid_with_ticket \<and>
                                  \<not> was_paid_with_subscription)
                           in if should_create_ticket
                              then (fst (ticket_objects_create d0 user
                                           (r_price_amount reservation) ACTIVE CANCELLATION
                                           (Some (r_id reservation)) (Some (now + days 180)) []),
                                    True, Some (r_price_amount reservation))
                              else (d0, False, None))
                        else (d, False, None))
                 in (reservation_update d1 (reservation\<lparr>r_status := CANCELLED\<rparr>),
                     Inr \<lparr>ticket_created = created, ticket_amount = amount\<rparr>))))"

fun cancel_times :: "nat \<Rightarrow> db \<Rightarrow> nat \<Rightarrow> nat \<Rightarrow> datetime \<Rightarrow> db" where
  \<comment> \<open>The state after \<open>n\<close> cancel requests for the same reservation, all at \<open>now\<close>.\<close>
  "cancel_times 0 d user reservation_id now = d"
| "cancel_times (Suc n) d user reservation_id now =
     cancel_times n (fst (reservation_cancel d user reservation_id now)) user reservation_id now"

section \<open>Friend invitations (users/models.py, FriendInvitation; users/views.py)\<close>

definition invitation_is_valid :: "friend_invitation \<Rightarrow> datetime \<Rightarrow> bool" where
  \<comment> \<open>\<^verbatim>\<open>FriendInvitation.is_valid\<close>, read at the instant \<open>now\<close>\<close>
  "invitation_is_valid i now = (i_status i = INV_PENDING \<and> now < i_expires_at i)"

definition can_be_used :: "friend_invitation \<Rightarrow> bool" where
  \<comment> \<open>\<^verbatim>\<open>FriendInvitation.can_be_used\<close>\<close>
  "can_be_used i = (i_status i = INV_ACCEPTED \<and> i_invited_user i \<noteq> None)"

definition mark_as_accepted :: "friend_invitation \<Rightarrow> nat \<Rightarrow> datetime \<Rightarrow> friend_invitation" where
  \<comment> \<open>\<^verbatim>\<open>FriendInvitation.mark_as_accepted(user)\<close>\<close>
  "mark_as_accepted i user_id now =
     i\<lparr>i_status := INV_ACCEPTED, i_invited_user := Some user_id, i_accepted_at := Some now\<rparr>"

definition mark_as_used :: "friend_invitation \<Rightarrow> datetime \<Rightarrow> friend_invitation" where
  \<comment> \<open>\<^verbatim>\<open>FriendInvitation.mark_as_used()\<close>\<close>
  "mark_as_used i now = i\<lparr>i_status := INV_USED, i_used_at := Some now\<rparr>"

definition create_invitation ::
    "db \<Rightarrow> nat \<Rightarrow> string \<Rightarrow> reservation \<Rightarrow> string \<Rightarrow> string \<Rightarrow> datetime
       \<Rightarrow> error + (db \<times> friend_invitation)" where
  \<comment> \<open>\<^verbatim>\<open>FriendInvitation.create_invitation(inviter, invited_email, reservation, message)\<close>.
      The 32 characters taken from \<^verbatim>\<open>uuid.uuid4()\<close> are the parameter \<open>token\<close>. The insert
      fails on the unique token and on \<^verbatim>\<open>unique_together\<close>.\<close>
  "create_invitation d inviter invited_email reservation message token now =
     (let reservation_date = r_reservation_date reservation;
          wednesday_deadline = combine (reservation_date - 1) (time_hms 23 59 59)
      in if now > wednesday_deadline then Inl ValueError
         else
           (let invitation_token = token;
                expires_at = combine (reservation_date - 1) (time_hms 23 59 59) + minutes 1;
                invitation =
                  \<lparr>i_id = seq_invitation d, i_inviter = inviter,
                   i_invited_email = invited_email, i_invited_user = None,
                   i_invitation_token = invitation_token, i_reservation = r_id reservation,
                   i_status = INV_PENDING, i_message = message, i_expires_at = expires_at,
                   i_accepted_at = None, i_used_at = None\<rparr>
            in if list_ex (\<lambda>i. i_invitation_token i = invitation_token \<or>
                               (i_inviter i = inviter \<and> i_invited_email i = invited_email \<and>
                                i_reservation i = r_id reservation))
                    (invitations d)
               then Inl IntegrityError
               else Inr (d\<lparr>invitations := invitations d @ [invitation],
                           seq_invitation := seq_invitation d + 1\<rparr>, invitation)))"

definition lower_char :: "char \<Rightarrow> char" where
  \<comment> \<open>\<^verbatim>\<open>str.lower()\<close> on one ASCII character; other characters are left as they are.\<close>
  "lower_char c =
     (let n = (of_char c :: nat) in if 65 \<le> n \<and> n \<le> 90 then char_of (n + 32) else c)"

definition lower :: "string \<Rightarrow> string" where
  "lower s = map lower_char s"

record accept_request =
  a_email :: string
  a_password :: string
  a_first_name :: string
  a_last_name :: string

definition accept_invitation ::
    "db \<Rightarrow> string \<Rightarrow> accept_request \<Rightarrow> datetime \<Rightarrow> db \<times> (error + nat)" where
  \<comment> \<open>\<^verbatim>\<open>AcceptInvitationView.post(request, invitation_token)\<close>; a field that is absent from
      the request is the empty string. The result is the id of the user. The password
      hash is modelled by the password itself, and the table of authentication tokens is
      left out.\<close>
  "accept_invitation d invitation_token req now =
     (case objects_get (invitations d) (\<lambda>i. i_invitation_token i = invitation_token) of
        DoesNotExist \<Rightarrow> (d, Inl NotFound)
      | MultipleObjectsReturned \<Rightarrow> (d, Inl InternalError)
      | Found invitation \<Rightarrow>
          if \<not> invitation_is_valid invitation now then (d, Inl Expired)
          else if a_email req = [] \<or> a_password req = [] \<or> a_first_name req = [] \<or>
                  a_last_name req = [] then (d, Inl ValidationError)
          else if lower (a_email req) \<noteq> lower (i_invited_email invitation)
               then (d, Inl Mismatch)
          else
            (case objects_get (users d) (\<lambda>u. u_email u = a_email req) of
               MultipleObjectsReturned \<Rightarrow> (d, Inl InternalError)
             | DoesNotExist \<Rightarrow>
                 (let u = \<lparr>u_id = seq_user d, u_email = a_email req, u_username = a_email req,
                           u_first_name = a_first_name req, u_last_name = a_last_name req,
                           u_password = a_password req, u_email_verified = True,
                           u_is_invited_user = True, u_invitation_used = Some (i_id invitation),
                           u_last_login_at = Some now\<rparr>
                  in (d\<lparr>users := users d @ [u], seq_user := seq_user d + 1,
                        invitations := update_row i_id (mark_as_accepted invitation (u_id u) now)
                                         (invitations d)\<rparr>,
                      Inr (u_id u)))
             | Found u0 \<Rightarrow>
                 if u_password u0 \<noteq> a_password req then (d, Inl AuthError)
                 else
                   (let u1 = (if \<not> u_is_invited_user u0
                              then u0\<lparr>u_is_invited_user := True,
                                      u_invitation_used := Some (i_id invitation)\<rparr>
                              else u0);
                        u2 = u1\<lparr>u_last_login_at := Some now\<rparr>
                    in (d\<lparr>users := update_row u_id u2 (users d),
                          invitations := update_row i_id (mark_as_accepted invitation (u_id u0) now)
                                           (invitations d)\<rparr>,
                        Inr (u_id u0)))))"

definition process_invited_user :: "db \<Rightarrow> nat \<Rightarrow> datetime \<Rightarrow> db \<times> (error + reservation)" where
  \<comment> \<open>\<^verbatim>\<open>ProcessInvitedUserView.post(request)\<close> for \<^verbatim>\<open>request.user = user\<close>;
      \<^verbatim>\<open>invitation.reservation\<close> is the lookup of the foreign key.\<close>
  "process_invited_user d user_id now =
     (case objects_get (invitations d)
             (\<lambda>i. i_invited_user i = Some user_id \<and> i_status i = INV_ACCEPTED) of
        DoesNotExist \<Rightarrow> (d, Inl NotFound)
      | MultipleObjectsReturned \<Rightarrow> (d, Inl InternalError)
      | Found invitation \<Rightarrow>
          if \<not> can_be_used invitation then (d, Inl InvalidState)
          else
            (case objects_get (reservations d) (\<lambda>r. r_id r = i_reservation invitation) of
               DoesNotExist \<Rightarrow> (d, Inl InternalError)
             | MultipleObjectsReturned \<Rightarrow> (d, Inl InternalError)
             | Found original_reservation \<Rightarrow>
                 (let (d1, invited_reservation) =
                        reservation_objects_create d
                          \<lparr>r_id = 0, r_user = user_id,
                           r_activity_name = r_activity_name original_reservation,
                           r_activity_description = r_activity_description original_reservation,
                           r_reservation_date = r_reservation_date original_reservation,
                           r_reservation_time = r_reservation_time original_reservation,
                           r_venue_name = r_venue_name original_reservation,
                           r_venue_address = r_venue_address original_reservation,
                           r_price_plan = r_price_plan original_reservation,
                           r_price_amount = r_price_amount original_reservation,
                           r_currency = r_currency original_reservation,
                           r_status = PENDING, r_stripe_payment_intent_id = [],
                           r_paid_at = None, r_participants_count = 1,
                           r_special_requests = [], r_cancellation_deadline = None\<rparr>
                  in (d1\<lparr>invitations := update_row i_id (mark_as_used invitation now)
                                           (invitations d1)\<rparr>,
                      Inr invited_reservation))))"

section \<open>Groups (users/models.py, EventGroup; users/views.py, CreateGroupView; users/admin.py)\<close>

definition meta_ordering :: "reservation list \<Rightarrow> reservation list" where
  \<comment> \<open>\<^verbatim>\<open>Reservation.Meta.ordering = ['reservation_date', 'reservation_time']\<close>; rows with
      the same date and time stay in table order.\<close>
  "meta_ordering rs = sort_key (\<lambda>r. (r_reservation_date r, r_reservation_time r)) rs"

definition has_group :: "db \<Rightarrow> reservation \<Rightarrow> bool" where
  \<comment> \<open>\<^verbatim>\<open>Reservation.has_group\<close>\<close>
  "has_group d r = list_ex (\<lambda>m. m_reservation m = r_id r) (memberships d)"

definition participants_count :: "db \<Rightarrow> event_group \<Rightarrow> nat" where
  \<comment> \<open>\<^verbatim>\<open>EventGroup.participants_count\<close>:
      \<^verbatim>\<open>self.memberships.filter(reservation__status='CONFIRMED').count()\<close>\<close>
  "participants_count d g =
     length (filter (\<lambda>m. m_group m = g_id g \<and>
                          list_ex (\<lambda>r. r_id r = m_reservation m \<and> r_status r = CONFIRMED)
                            (reservations d))
               (memberships d))"

definition is_full :: "db \<Rightarrow> event_group \<Rightarrow> bool" where
  \<comment> \<open>\<^verbatim>\<open>EventGroup.is_full\<close>\<close>
  "is_full d g = (participants_count d g \<ge> g_max_participants g)"

definition group_objects_create :: "db \<Rightarrow> event_group \<Rightarrow> db \<times> event_group" where
  \<comment> \<open>\<^verbatim>\<open>EventGroup.objects.create(...)\<close>; the field \<open>g_id\<close> of the argument is ignored.\<close>
  "group_objects_create d row =
     (let g = row\<lparr>g_id := seq_group d\<rparr>
      in (d\<lparr>groups := groups d @ [g], seq_group := seq_group d + 1\<rparr>, g))"

definition membership_objects_create :: "db \<Rightarrow> nat \<Rightarrow> nat \<Rightarrow> datetime \<Rightarrow> error + db" where
  \<comment> \<open>\<^verbatim>\<open>GroupMembership.objects.create(group=..., reservation=...)\<close>: the one-to-one field
      \<^verbatim>\<open>reservation\<close> is unique, so the insert fails when the reservation already has a
      membership.\<close>
  "membership_objects_create d group_id reservation_id now =
     (if list_ex (\<lambda>m. m_reservation m = reservation_id) (memberships d)
      then Inl IntegrityError
      else Inr (d\<lparr>memberships := memberships d @
                     [\<lparr>m_id = seq_membership d, m_reservation = reservation_id,
                       m_group = group_id, m_joined_at = now\<rparr>],
                   seq_membership := seq_membership d + 1\<rparr>))"

fun add_memberships :: "db \<Rightarrow> nat \<Rightarrow> reservation list \<Rightarrow> datetime \<Rightarrow> db \<times> error option" where
  \<comment> \<open>The loop \<^verbatim>\<open>for reservation in reservations: GroupMembership.objects.create(...)\<close>.
      An exception ends the loop; the rows written before it stay.\<close>
  "add_memberships d group_id [] now = (d, None)"
| "add_memberships d group_id (r # rs) now =
     (case membership_objects_create d group_id (r_id r) now of
        Inl e \<Rightarrow> (d, Some e)
      | Inr d1 \<Rightarrow> add_memberships d1 group_id rs now)"

record create_group_request =
  cg_name :: string
  cg_meeting_point_name :: string
  cg_meeting_point_address :: "string option"
  cg_meeting_time :: "time_of_day option"
  cg_selected_reservations :: "nat list"

definition create_group :: "db \<Rightarrow> create_group_request \<Rightarrow> datetime \<Rightarrow> db \<times> (error + nat)" where
  \<comment> \<open>\<^verbatim>\<open>CreateGroupView.post(request)\<close>. An absent name or meeting point is the empty
      string. The lookups of the members' personality test results, which only feed the
      response, are left out. \<open>cg_meeting_time\<close> is the outcome of \<^verbatim>\<open>strptime(meeting_time, '%H:%M')\<close> (with
      the default 20:00 when the field is absent), \<open>None\<close> when it raises. An absent
      address is \<open>None\<close>, which the column, not nullable, refuses. The result is the id of
      the group.\<close>
  "create_group d req now =
     (if cg_name req = [] then (d, Inl ValidationError)
      else if cg_meeting_point_name req = [] then (d, Inl ValidationError)
      else if cg_selected_reservations req = [] then (d, Inl ValidationError)
      else
        (let reservations =
               meta_ordering
                 (filter (\<lambda>r. r_id r \<in> set (cg_selected_reservations req) \<and>
                              r_status r = CONFIRMED) (reservations d))
         in case reservations of
              [] \<Rightarrow> (d, Inl ValidationError)
            | first_reservation # _ \<Rightarrow>
                if \<not> list_all (\<lambda>r. r_reservation_date r = r_reservation_date first_reservation)
                       reservations
                then (d, Inl ValidationError)
                else
                  (case cg_meeting_time req of
                     None \<Rightarrow> (d, Inl InternalError)
                   | Some meeting_time_obj \<Rightarrow>
                       (case cg_meeting_point_address req of
                          None \<Rightarrow> (d, Inl InternalError)
                        | Some meeting_point_address \<Rightarrow>
                            (let (d1, group) =
                                   group_objects_create d
                                     \<lparr>g_id = 0, g_name = cg_name req,
                                      g_event_date = r_reservation_date first_reservation,
                                      g_activity_name = r_activity_name first_reservation,
                                      g_meeting_point_name = cg_meeting_point_name req,
                                      g_meeting_point_address = meeting_point_address,
                                      g_meeting_time = meeting_time_obj,
                                      g_location_reveal_time = None,
                                      g_max_participants = length (cg_selected_reservations req),
                                      g_is_confirmed = True\<rparr>;
                                 (d2, failure) = add_memberships d1 (g_id group) reservations now
                             in case failure of
                                  Some e \<Rightarrow> (d2, Inl InternalError)
                                | None \<Rightarrow> (d2, Inr (g_id group)))))))"

fun group_insert ::
    "date \<times> string \<Rightarrow> reservation \<Rightarrow> ((date \<times> string) \<times> reservation list) list
       \<Rightarrow> ((date \<times> string) \<times> reservation list) list" where
  \<comment> \<open>\<^verbatim>\<open>if key not in grouped: grouped[key] = []\<close>, then \<^verbatim>\<open>grouped[key].append(reservation)\<close>,
      on a dictionary kept as the list of its items in insertion order\<close>
  "group_insert key r [] = [(key, [r])]"
| "group_insert key r ((k, rs) # items) =
     (if k = key then (k, rs @ [r]) # items else (k, rs) # group_insert key r items)"

definition grouped_reservations ::
    "db \<Rightarrow> reservation list \<Rightarrow> ((date \<times> string) \<times> reservation list) list" where
  \<comment> \<open>The first loop of \<^verbatim>\<open>ReservationAdmin.create_groups_for_selected\<close>\<close>
  "grouped_reservations d queryset =
     foldl (\<lambda>grouped reservation.
              if has_group d reservation then grouped
              else group_insert (r_reservation_date reservation, r_activity_name reservation)
                     reservation grouped)
       [] (filter (\<lambda>r. r_status r = CONFIRMED) queryset)"

function create_chunks ::
    "(string \<Rightarrow> date \<Rightarrow> nat \<Rightarrow> string) \<Rightarrow> db \<Rightarrow> date \<times> string \<Rightarrow> reservation list \<Rightarrow> nat
       \<Rightarrow> datetime \<Rightarrow> db \<times> error option" where
  \<comment> \<open>\<^verbatim>\<open>for i in range(0, len(reservations), 6)\<close>, started at \<open>i\<close> on the reservations from
      index \<open>i\<close> on: one group of at most 6 per round. \<open>fmt activity date n\<close> is the name
      \<^verbatim>\<open>f"Groupe {activity} - {date.strftime('%d/%m')} #{n}"\<close>.\<close>
  "create_chunks fmt d key rs i now =
     (if rs = [] then (d, None)
      else
        (let group_reservations = take 6 rs;
             (d1, group) =
               group_objects_create d
                 \<lparr>g_id = 0, g_name = fmt (snd key) (fst key) (i div 6 + 1),
                  g_event_date = fst key, g_activity_name = snd key,
                  g_meeting_point_name = [], g_meeting_point_address = [],
                  g_meeting_time = time_hms 20 0 0, g_location_reveal_time = None,
                  g_max_participants = 6, g_is_confirmed = True\<rparr>;
             (d2, failure) = add_memberships d1 (g_id group) group_reservations now
         in case failure of
              Some e \<Rightarrow> (d2, Some e)
            | None \<Rightarrow> create_chunks fmt d2 key (drop 6 rs) (i + 6) now))"
  by pat_completeness auto
termination
  by (relation "measure (\<lambda>(fmt, d, key, rs, i, now). length rs)") auto

fun create_groups_loop ::
    "(string \<Rightarrow> date \<Rightarrow> nat \<Rightarrow> string) \<Rightarrow> db \<Rightarrow> ((date \<times> string) \<times> reservation list) list
       \<Rightarrow> datetime \<Rightarrow> db \<times> error option" where
  \<comment> \<open>\<^verbatim>\<open>for (date, activity), reservations in grouped_reservations.items()\<close>\<close>
  "create_groups_loop fmt d [] now = (d, None)"
| "create_groups_loop fmt d ((key, rs) # items) now =
     (case create_chunks fmt d key rs 0 now of
        (d1, Some e) \<Rightarrow> (d1, Some e)
      | (d1, None) \<Rightarrow> create_groups_loop fmt d1 items now)"

definition admin_ordering :: "reservation list \<Rightarrow> reservation list" where
  \<comment> \<open>The ordering of the administration site's change list: the model's ordering, made
      total with \<^verbatim>\<open>-pk\<close> (of equal date and time, the newest first).\<close>
  "admin_ordering rs =
     sort_key (\<lambda>r. (r_reservation_date r, r_reservation_time r, - int (r_id r))) rs"

definition create_groups_for_selected ::
    "(string \<Rightarrow> date \<Rightarrow> nat \<Rightarrow> string) \<Rightarrow> db \<Rightarrow> nat list \<Rightarrow> datetime \<Rightarrow> db \<times> error option" where
  \<comment> \<open>\<^verbatim>\<open>ReservationAdmin.create_groups_for_selected(request, queryset)\<close>, the queryset being
      the reservations whose ids the administrator selected in the change list\<close>
  "create_groups_for_selected fmt d selected now =
     (let queryset = admin_ordering (filter (\<lambda>r. r_id r \<in> set selected) (reservations d))
      in create_groups_loop fmt d (grouped_reservations d queryset) now)"

definition admin_change_group :: "db \<Rightarrow> nat \<Rightarrow> event_group \<Rightarrow> db" where
  \<comment> \<open>The change form of \<^verbatim>\<open>EventGroupAdmin\<close> (users/admin.py): its field sets list the name,
      the date, the activity, \<^verbatim>\<open>max_participants\<close>, \<^verbatim>\<open>is_confirmed\<close>, the meeting point and the
      reveal time as editable, and the class adds no validation. Saving the form for the
      group with the given id stores the edited values (the field \<open>g_id\<close> of the argument
      is ignored); without such a group nothing is written.\<close>
  "admin_change_group d group_id edited =
     d\<lparr>groups := map (\<lambda>g. if g_id g = group_id then edited\<lparr>g_id := group_id\<rparr> else g)
                    (groups d)\<rparr>"

definition admin_add_membership :: "db \<Rightarrow> nat \<Rightarrow> nat \<Rightarrow> datetime \<Rightarrow> db" where
  \<comment> \<open>A row added in \<^verbatim>\<open>GroupMembershipInline\<close> of that form: a membership of a stored
      reservation in the stored group. The form refuses a reservation that has a
      membership already (the one-to-one field); it does not look at
      \<^verbatim>\<open>max_participants\<close>.\<close>
  "admin_add_membership d group_id reservation_id now =
     (if list_ex (\<lambda>g. g_id g = group_id) (groups d) \<and>
         list_ex (\<lambda>r. r_id r = reservation_id) (reservations d)
      then (case membership_objects_create d group_id reservation_id now of
              Inl e \<Rightarrow> d
            | Inr d1 \<Rightarrow> d1)
      else d)"

definition admin_delete_membership :: "db \<Rightarrow> nat \<Rightarrow> db" where
  \<comment> \<open>A row deleted in \<^verbatim>\<open>GroupMembershipInline\<close>\<close>
  "admin_delete_membership d membership_id =
     d\<lparr>memberships := filter (\<lambda>m. m_id m \<noteq> membership_id) (memberships d)\<rparr>"

section \<open>Confirming a payment (users/views.py, ConfirmPaymentView)\<close>

datatype 'a field = Absent | Invalid | Value 'a

text \<open>
  A field of the request that the view parses: \<open>Absent\<close> when the key is missing or
  empty, \<open>Invalid\<close> when \<^verbatim>\<open>strptime\<close> raises on it, \<open>Value v\<close> otherwise. A field that
  the view reads with \<^verbatim>\<open>.get(key, default)\<close> or \<^verbatim>\<open>[key]\<close> is an \<open>option\<close>.
\<close>

record reservation_data =
  rd_activity_name :: "string option"
  rd_activity_description :: "string option"
  rd_reservation_date :: "date field"
  rd_reservation_time :: "time_of_day field"
  rd_venue_name :: "string option"
  rd_venue_address :: "string option"
  rd_price_plan :: "string option"
  rd_price_amount :: "int option"
  rd_currency :: "string option"
  rd_participants_count :: "nat option"
  rd_special_requests :: "string option"

record payment_intent =
  pi_status :: string
  pi_amount :: int
  pi_currency :: string
  pi_activity_name :: "string option"
  pi_reservation_date :: "date field"
  pi_price_plan :: "string option"

record confirm_request =
  cp_payment_intent_id :: string
  cp_status :: string
  cp_reservation_data :: "reservation_data option"

definition get_default :: "'a option \<Rightarrow> 'a \<Rightarrow> 'a" where
  \<comment> \<open>\<^verbatim>\<open>data.get(key, default)\<close>\<close>
  "get_default v dflt = (case v of None \<Rightarrow> dflt | Some x \<Rightarrow> x)"

definition upper_char :: "char \<Rightarrow> char" where
  \<comment> \<open>\<^verbatim>\<open>str.upper()\<close> on one ASCII character; other characters are left as they are.\<close>
  "upper_char c =
     (let n = (of_char c :: nat) in if 97 \<le> n \<and> n \<le> 122 then char_of (n - 32) else c)"

definition upper :: "string \<Rightarrow> string" where
  "upper s = map upper_char s"

definition confirm_dev_create ::
    "(nat \<Rightarrow> string) \<Rightarrow> db \<Rightarrow> nat \<Rightarrow> string \<Rightarrow> reservation_data \<Rightarrow> datetime
       \<Rightarrow> db \<times> (error + reservation)" where
  \<comment> \<open>The branch \<^verbatim>\<open>if reservation_data:\<close> of the local development mode. A missing
      \<^verbatim>\<open>activity_name\<close>, \<^verbatim>\<open>price_plan\<close> or \<^verbatim>\<open>price_amount\<close> raises \<^verbatim>\<open>KeyError\<close>, a malformed time
      raises \<^verbatim>\<open>ValueError\<close>; both end in the view's \<^verbatim>\<open>except Exception\<close>. \<open>note n\<close> is the
      text \<^verbatim>\<open>f"Ticket ... {reservation.id}"\<close>. The view computes
      \<^verbatim>\<open>final_payment_intent_id\<close> from the user's premium status and never uses it; the call
      of \<^verbatim>\<open>update_subscription_status\<close> writes only fields of the user that are not in this
      model.\<close>
  "confirm_dev_create note d user payment_intent_id reservation_data now =
     (case rd_reservation_date reservation_data of
        Absent \<Rightarrow> (d, Inl ValidationError)
      | Invalid \<Rightarrow> (d, Inl ValidationError)
      | Value reservation_date \<Rightarrow>
          (case (case rd_reservation_time reservation_data of
                   Absent \<Rightarrow> Some (time_hms 20 0 0) | Invalid \<Rightarrow> None | Value t \<Rightarrow> Some t) of
             None \<Rightarrow> (d, Inl InternalError)
           | Some reservation_time \<Rightarrow>
               (case (rd_activity_name reservation_data, rd_price_plan reservation_data,
                      rd_price_amount reservation_data) of
                  (Some activity_name, Some price_plan, Some price_amount) \<Rightarrow>
                    (let (d1, reservation) =
                           reservation_objects_create d
                             \<lparr>r_id = 0, r_user = user, r_activity_name = activity_name,
                              r_activity_description =
                                get_default (rd_activity_description reservation_data) [],
                              r_reservation_date = reservation_date,
                              r_reservation_time = reservation_time,
                              r_venue_name = get_default (rd_venue_name reservation_data) ''Paris'',
                              r_venue_address = get_default (rd_venue_address reservation_data) [],
                              r_price_plan = price_plan, r_price_amount = price_amount,
                              r_currency = get_default (rd_currency reservation_data) ''EUR'',
                              r_status = CONFIRMED,
                              r_stripe_payment_intent_id = payment_intent_id,
                              r_paid_at = Some now,
                              r_participants_count =
                                get_default (rd_participants_count reservation_data) 1,
                              r_special_requests =
                                get_default (rd_special_requests reservation_data) [],
                              r_cancellation_deadline = None\<rparr>;
                         d2 = (if price_plan = ''ticket''
                               then fst (ticket_objects_create d1 user price_amount ACTIVE REFUND
                                           None (Some (now + days 365)) (note (r_id reservation)))
                               else d1)
                     in (d2, Inr reservation))
                | _ \<Rightarrow> (d, Inl InternalError))))"

definition confirm_dev_pending ::
    "db \<Rightarrow> nat \<Rightarrow> string \<Rightarrow> datetime \<Rightarrow> db \<times> (error + reservation)" where
  \<comment> \<open>The branch \<^verbatim>\<open>else:\<close> of the local development mode, on the user's PENDING reservation;
      of several, \<^verbatim>\<open>order_by('-created_at').first()\<close> takes the newest.\<close>
  "confirm_dev_pending d user payment_intent_id now =
     (case filter (\<lambda>r. r_user r = user \<and> r_status r = PENDING) (reservations d) of
        [] \<Rightarrow> (d, Inl NotFound)
      | pending \<Rightarrow>
          (let reservation = (last pending)\<lparr>r_status := CONFIRMED, r_paid_at := Some now,
                                 r_stripe_payment_intent_id := payment_intent_id\<rparr>
           in (reservation_update d reservation, Inr (reservation_save reservation))))"

definition confirm_production ::
    "(string \<Rightarrow> payment_intent option) \<Rightarrow> db \<Rightarrow> nat \<Rightarrow> string \<Rightarrow> datetime
       \<Rightarrow> db \<times> (error + reservation)" where
  \<comment> \<open>The production mode. \<open>stripe\<close> is \<^verbatim>\<open>stripe.PaymentIntent.retrieve\<close>, \<open>None\<close> when it
      raises \<^verbatim>\<open>StripeError\<close>. \<open>pi_amount\<close> is in hundredths, as \<open>r_price_amount\<close> is. A
      missing date makes \<^verbatim>\<open>Reservation.save\<close> raise, a malformed one makes \<^verbatim>\<open>strptime\<close>
      raise.\<close>
  "confirm_production stripe d user payment_intent_id now =
     (case stripe payment_intent_id of
        None \<Rightarrow> (d, Inl PaymentError)
      | Some intent \<Rightarrow>
          if pi_status intent \<noteq> ''succeeded'' then (d, Inl PaymentError)
          else
            (case pi_reservation_date intent of
               Absent \<Rightarrow> (d, Inl InternalError)
             | Invalid \<Rightarrow> (d, Inl InternalError)
             | Value reservation_date \<Rightarrow>
                 (let (d1, reservation) =
                        reservation_objects_create d
                          \<lparr>r_id = 0, r_user = user,
                           r_activity_name = get_default (pi_activity_name intent) [],
                           r_activity_description = [],
                           r_reservation_date = reservation_date,
                           r_reservation_time = time_hms 20 0 0,
                           r_venue_name = ''Paris'', r_venue_address = [],
                           r_price_plan = get_default (pi_price_plan intent) [],
                           r_price_amount = pi_amount intent,
                           r_currency = upper (pi_currency intent),
                           r_status = CONFIRMED,
                           r_stripe_payment_intent_id = payment_intent_id,
                           r_paid_at = Some now, r_participants_count = 1,
                           r_special_requests = [], r_cancellation_deadline = None\<rparr>
                  in (d1, Inr reservation))))"

definition confirm_payment ::
    "(string \<Rightarrow> payment_intent option) \<Rightarrow> (nat \<Rightarrow> string) \<Rightarrow> db \<Rightarrow> nat \<Rightarrow> confirm_request
       \<Rightarrow> datetime \<Rightarrow> db \<times> (error + reservation)" where
  \<comment> \<open>\<^verbatim>\<open>ConfirmPaymentView.post(request)\<close> for \<^verbatim>\<open>request.user = user\<close>; the result is the
      reservation of the response.\<close>
  "confirm_payment stripe note d user req now =
     (if cp_payment_intent_id req = [] then (d, Inl ValidationError)
      else if cp_payment_intent_id req = ''pi_test_local_dev'' \<and> cp_status req = ''succeeded''
      then (case cp_reservation_data req of
              Some reservation_data \<Rightarrow>
                confirm_dev_create note d user (cp_payment_intent_id req) reservation_data now
            | None \<Rightarrow> confirm_dev_pending d user (cp_payment_intent_id req) now)
      else confirm_production stripe d user (cp_payment_intent_id req) now)"

section \<open>Reserving with a subscription (users/views.py, CreateReservationWithSubscriptionView)\<close>

function str_nat :: "nat \<Rightarrow> string" where
  \<comment> \<open>\<^verbatim>\<open>str(n)\<close>, as the f-string \<^verbatim>\<open>f'subscription_{active_subscription.id}'\<close> formats the id\<close>
  "str_nat n =
     (if n < 10 then [char_of (48 + n)] else str_nat (n div 10) @ [char_of (48 + n mod 10)])"
  by pat_completeness auto
termination
  by (relation "measure (\<lambda>n. n)") auto

declare str_nat.simps [simp del]

definition subscription_is_active :: "user_subscription \<Rightarrow> datetime \<Rightarrow> bool" where
  \<comment> \<open>\<^verbatim>\<open>UserSubscription.is_active\<close>, read at the instant \<open>now\<close>\<close>
  "subscription_is_active s now = (if s_status s \<noteq> SUB_ACTIVE then False else now \<le> s_end_date s)"

definition can_make_reservation :: "db \<Rightarrow> user_subscription \<Rightarrow> datetime \<Rightarrow> error + bool" where
  \<comment> \<open>\<^verbatim>\<open>UserSubscription.can_make_reservation\<close>; \<^verbatim>\<open>self.current_reservation\<close> is the lookup of
      the foreign key, which raises when the row is not there.\<close>
  "can_make_reservation d s now =
     (if \<not> subscription_is_active s now then Inr False
      else case s_current_reservation s of
             None \<Rightarrow> Inr True
           | Some reservation_id \<Rightarrow>
               (case objects_get (reservations d) (\<lambda>r. r_id r = reservation_id) of
                  Found r \<Rightarrow> Inr (r_status r = CANCELLED \<or> r_status r = COMPLETED)
                | _ \<Rightarrow> Inl InternalError))"

definition get_active_subscription :: "db \<Rightarrow> nat \<Rightarrow> datetime \<Rightarrow> user_subscription option" where
  \<comment> \<open>\<^verbatim>\<open>UserSubscription.get_active_subscription(user)\<close>\<close>
  "get_active_subscription d user now =
     objects_first (newest_first (subscriptions d))
       (\<lambda>s. s_user s = user \<and> s_status s = SUB_ACTIVE \<and> s_end_date s > now)"

definition create_reservation_with_subscription ::
    "db \<Rightarrow> nat \<Rightarrow> reservation_data \<Rightarrow> datetime \<Rightarrow> db \<times> (error + reservation)" where
  \<comment> \<open>\<^verbatim>\<open>CreateReservationWithSubscriptionView.post(request)\<close> for \<^verbatim>\<open>request.user = user\<close>.
      The view reads the same keys as the payment confirmation, without the price. A
      malformed date makes \<^verbatim>\<open>strptime\<close> raise, a malformed time makes the insert raise.\<close>
  "create_reservation_with_subscription d user data now =
     (case get_active_subscription d user now of
        None \<Rightarrow> (d, Inl PaymentRequired)
      | Some active_subscription \<Rightarrow>
          (case can_make_reservation d active_subscription now of
             Inl e \<Rightarrow> (d, Inl InternalError)
           | Inr False \<Rightarrow> (d, Inl InvalidState)
           | Inr True \<Rightarrow>
               (case rd_reservation_date data of
                  Absent \<Rightarrow> (d, Inl ValidationError)
                | Invalid \<Rightarrow> (d, Inl InternalError)
                | Value reservation_date \<Rightarrow>
                    (case (case rd_reservation_time data of
                             Absent \<Rightarrow> Some (time_hms 20 0 0) | Invalid \<Rightarrow> None
                           | Value t \<Rightarrow> Some t) of
                       None \<Rightarrow> (d, Inl InternalError)
                     | Some reservation_time \<Rightarrow>
                         (let (d1, created) =
                                reservation_objects_create d
                                  \<lparr>r_id = 0, r_user = user,
                                   r_activity_name = get_default (rd_activity_name data) [],
                                   r_activity_description =
                                     get_default (rd_activity_description data) [],
                                   r_reservation_date = reservation_date,
                                   r_reservation_time = reservation_time,
                                   r_venue_name = get_default (rd_venue_name data) ''Paris'',
                                   r_venue_address = get_default (rd_venue_address data) [],
                                   r_price_plan = ''SUBSCRIPTION'', r_price_amount = 0,
                                   r_currency = ''EUR'', r_status = CONFIRMED,
                                   r_stripe_payment_intent_id =
                                     ''subscription_'' @ str_nat (s_id active_subscription),
                                   r_paid_at = Some now,
                                   r_participants_count =
                                     get_default (rd_participants_count data) 1,
                                   r_special_requests =
                                     get_default (rd_special_requests data) [],
                                   r_cancellation_deadline = None\<rparr>;
                              tuesday_before = reservation_date - 2;
                              deadline = combine tuesday_before (time_hms 23 59 0);
                              reservation = created\<lparr>r_cancellation_deadline := Some deadline\<rparr>;
                              d2 = reservation_update d1 reservation;
                              d3 = d2\<lparr>subscriptions :=
                                        update_row s_id
                                          (use_for_reservation active_subscription
                                             (r_id reservation))
                                          (subscriptions d2)\<rparr>
                          in (d3, Inr reservation))))))"

section \<open>Auxiliary predicates\<close>

definition dev_ok :: "reservation_data \<Rightarrow> bool" where
  \<comment> \<open>The payloads that \<open>confirm_dev_create\<close> accepts.\<close>
  "dev_ok data = ((case rd_reservation_date data of Value dt \<Rightarrow> True | _ \<Rightarrow> False) \<and>
     rd_reservation_time data \<noteq> Invalid \<and> rd_activity_name data \<noteq> None \<and>
     rd_price_plan data \<noteq> None \<and> rd_price_amount data \<noteq> None)"

definition production_ok :: "(string \<Rightarrow> payment_intent option) \<Rightarrow> string \<Rightarrow> bool" where
  \<comment> \<open>The payment references that \<open>confirm_production\<close> accepts.\<close>
  "production_ok stripe payment_intent_id =
     (case stripe payment_intent_id of
        None \<Rightarrow> False
      | Some intent \<Rightarrow> pi_status intent = ''succeeded'' \<and>
                       (case pi_reservation_date intent of Value dt \<Rightarrow> True | _ \<Rightarrow> False))"

section \<open>Reachable states\<close>

definition empty_db :: db where
  "empty_db = \<lparr>reservations = [], tickets = [], subscriptions = [], groups = [],
     memberships = [], invitations = [], users = [], seq_reservation = 1, seq_ticket = 1,
     seq_group = 1, seq_membership = 1, seq_invitation = 1, seq_user = 1\<rparr>"

inductive reachable_by_operations :: "db \<Rightarrow> bool" where
  \<comment> \<open>The states that the operations of the application reach from the empty database,
      the change forms of the administration site apart. The two operations that write
      groups and memberships are listed, with the cancellation; \<open>other\<close> stands for
      every other operation (payment confirmation, reservation with a ticket or a
      subscription, invitations, the administrator's \<^verbatim>\<open>confirm_reservations\<close>): they write
      neither groups nor memberships, and may change the other tables in any way.\<close>
  init: "reachable_by_operations empty_db"
| manual: "reachable_by_operations d \<Longrightarrow> reachable_by_operations (fst (create_group d req now))"
| batch: "reachable_by_operations d \<Longrightarrow>
          reachable_by_operations (fst (create_groups_for_selected fmt d selected now))"
| cancel: "reachable_by_operations d \<Longrightarrow>
           reachable_by_operations (fst (reservation_cancel d user reservation_id now))"
| other: "reachable_by_operations d \<Longrightarrow> groups d' = groups d \<Longrightarrow>
          memberships d' = memberships d \<Longrightarrow> seq_group d' = seq_group d \<Longrightarrow>
          reachable_by_operations d'"

inductive reachable :: "db \<Rightarrow> bool" where
  \<comment> \<open>Every reachable state: the operations above, and the change form of a group in the
      administration site with its inline of memberships.\<close>
  init: "reachable empty_db"
| manual: "reachable d \<Longrightarrow> reachable (fst (create_group d req now))"
| batch: "reachable d \<Longrightarrow> reachable (fst (create_groups_for_selected fmt d selected now))"
| cancel: "reachable d \<Longrightarrow> reachable (fst (reservation_cancel d user reservation_id now))"
| other: "reachable d \<Longrightarrow> groups d' = groups d \<Longrightarrow> memberships d' = memberships d \<Longrightarrow>
          seq_group d' = seq_group d \<Longrightarrow> reachable d'"
| change_form: "reachable d \<Longrightarrow> reachable (admin_change_group d group_id edited)"
| inline_add: "reachable d \<Longrightarrow> reachable (admin_add_membership d group_id reservation_id now)"
| inline_delete: "reachable d \<Longrightarrow> reachable (admin_delete_membership d membership_id)"

definition members :: "db \<Rightarrow> nat \<Rightarrow> group_membership list" where
  \<comment> \<open>\<^verbatim>\<open>group.memberships\<close>: the memberships of the group with the given id\<close>
  "members d group_id = filter (\<lambda>m. m_group m = group_id) (memberships d)"

definition group_inv :: "db \<Rightarrow> bool" where
  \<comment> \<open>The invariant behind the capacity bound: the sequence of group ids is ahead of
      every id in use, and no group has more memberships than \<open>max_participants\<close>.\<close>
  "group_inv d =
     (list_all (\<lambda>g. g_id g < seq_group d) (groups d) \<and>
      list_all (\<lambda>m. m_group m < seq_group d) (memberships d) \<and>
      list_all (\<lambda>g. length (members d (g_id g)) \<le> g_max_participants g) (groups d))"

section \<open>Example data\<close>

definition cancel_ticket :: "nat \<Rightarrow> nat \<Rightarrow> int \<Rightarrow> datetime \<Rightarrow> nat \<Rightarrow> user_ticket" where
  \<comment> \<open>The row that \<^verbatim>\<open>UserTicket.objects.create\<close> writes in \<^verbatim>\<open>ReservationCancelView.post\<close>
      for the user, the reservation and its amount, at \<open>now\<close>, with primary key \<open>k\<close>.\<close>
  "cancel_ticket user reservation_id amount now k =
     \<lparr>t_id = k, t_user = user, t_amount = amount, t_status = ACTIVE,
      t_source = CANCELLATION, t_original_reservation = Some reservation_id,
      t_used_for_reservation = None, t_expires_at = Some (now + days 180), t_used_at = None,
      t_notes = []\<rparr>"

definition cloned :: "db \<Rightarrow> nat \<Rightarrow> reservation \<Rightarrow> reservation" where
  \<comment> \<open>The row that \<^verbatim>\<open>Reservation.objects.create\<close> writes in
      \<^verbatim>\<open>ProcessInvitedUserView.post\<close> for the user and the inviter's reservation.\<close>
  "cloned d u orig = reservation_save
     \<lparr>r_id = seq_reservation d, r_user = u,
      r_activity_name = r_activity_name orig,
      r_activity_description = r_activity_description orig,
      r_reservation_date = r_reservation_date orig,
      r_reservation_time = r_reservation_time orig,
      r_venue_name = r_venue_name orig,
      r_venue_address = r_venue_address orig,
      r_price_plan = r_price_plan orig,
      r_price_amount = r_price_amount orig,
      r_currency = r_currency orig,
      r_status = PENDING, r_stripe_payment_intent_id = [],
      r_paid_at = None, r_participants_count = 1,
      r_special_requests = [], r_cancellation_deadline = None\<rparr>"

definition res_thu :: reservation where
  \<comment> \<open>A paid reservation for Thursday 2024-06-13 (ordinal 739050), plan \<^verbatim>\<open>TICKET\<close>,
      paid directly; its deadline is Tuesday 2024-06-11 (ordinal 739048) at 23:59:00.\<close>
  "res_thu = \<lparr>r_id = 1, r_user = 1, r_activity_name = ''Bowling'', r_activity_description = [],
     r_reservation_date = 739050, r_reservation_time = time_hms 20 0 0,
     r_venue_name = ''Paris'', r_venue_address = [], r_price_plan = ''TICKET'',
     r_price_amount = 2500, r_currency = ''EUR'', r_status = CONFIRMED,
     r_stripe_payment_intent_id = ''pi_1'', r_paid_at = Some (combine 739040 0),
     r_participants_count = 1, r_special_requests = [],
     r_cancellation_deadline = Some (combine 739048 (time_hms 23 59 0))\<rparr>"

definition db_of :: "reservation \<Rightarrow> db" where
  \<comment> \<open>A database that holds one reservation and nothing else.\<close>
  "db_of r = \<lparr>reservations = [r], tickets = [], subscriptions = [], groups = [],
     memberships = [], invitations = [], users = [], seq_reservation = r_id r + 1, seq_ticket = 1,
     seq_group = 1, seq_membership = 1, seq_invitation = 1, seq_user = 1\<rparr>"

definition tk0 :: user_ticket where
  \<comment> \<open>An active ticket that expires at the instant 100.\<close>
  "tk0 = \<lparr>t_id = 1, t_user = 1, t_amount = 2500, t_status = ACTIVE, t_source = CANCELLATION,
     t_original_reservation = None, t_used_for_reservation = None,
     t_expires_at = Some 100, t_used_at = None, t_notes = []\<rparr>"

definition res_basic :: reservation where
  \<comment> \<open>As \<open>res_thu\<close>, but booked on the plan \<^verbatim>\<open>basic\<close>.\<close>
  "res_basic = res_thu\<lparr>r_price_plan := ''basic''\<rparr>"

definition sub0 :: user_subscription where
  \<comment> \<open>An active subscription of user 1 that holds reservation 1.\<close>
  "sub0 = \<lparr>s_id = 1, s_user = 1, s_subscription_type = MONTHLY, s_status = SUB_ACTIVE,
     s_start_date = combine 739030 0, s_end_date = combine 739060 0, s_price_paid = 4900,
     s_reservations_used = 1, s_current_reservation = Some 1\<rparr>"

definition res_sub :: reservation where
  \<comment> \<open>As \<open>res_thu\<close>, but settled through subscription 1.\<close>
  "res_sub = res_thu\<lparr>r_price_plan := ''SUBSCRIPTION'', r_price_amount := 0,
     r_stripe_payment_intent_id := ''subscription_1''\<rparr>"

definition inv_created :: "error + (db \<times> friend_invitation)" where
  \<comment> \<open>User 1 invites \<^verbatim>\<open>friend@example.com\<close> to \<open>res_thu\<close> on Monday 2024-06-10 at 10:00.\<close>
  "inv_created = create_invitation (db_of res_thu) 1 ''friend@example.com'' res_thu []
                   ''0123456789abcdef0123456789abcdef'' (combine 739047 (time_hms 10 0 0))"

definition inv0 :: friend_invitation where
  \<comment> \<open>The invitation that \<open>inv_created\<close> stores.\<close>
  "inv0 = \<lparr>i_id = 1, i_inviter = 1, i_invited_email = ''friend@example.com'',
     i_invited_user = None, i_invitation_token = ''0123456789abcdef0123456789abcdef'',
     i_reservation = 1, i_status = INV_PENDING, i_message = [],
     i_expires_at = combine 739050 (time_hms 0 0 59), i_accepted_at = None, i_used_at = None\<rparr>"

definition friend_request :: accept_request where
  "friend_request = \<lparr>a_email = ''friend@example.com'', a_password = ''secret'',
     a_first_name = ''Ada'', a_last_name = ''Friend''\<rparr>"

definition db_accepted :: db where
  \<comment> \<open>User 2 has accepted \<open>inv0\<close> on Monday 2024-06-10 at 11:00.\<close>
  "db_accepted = (db_of res_thu)
     \<lparr>invitations := [mark_as_accepted inv0 2 (combine 739047 (time_hms 11 0 0))],
      seq_invitation := 2\<rparr>"

definition res_b :: reservation where
  \<comment> \<open>As \<open>res_thu\<close>, for user 2.\<close>
  "res_b = res_thu\<lparr>r_id := 2, r_user := 2\<rparr>"

definition db_two :: db where
  \<comment> \<open>Two confirmed reservations for the same evening, no group yet.\<close>
  "db_two = (db_of res_thu)\<lparr>reservations := [res_thu, res_b], seq_reservation := 3\<rparr>"

definition group_request :: "nat list \<Rightarrow> create_group_request" where
  \<comment> \<open>A well-formed request for a group of the listed reservations.\<close>
  "group_request ids = \<lparr>cg_name = ''G1'', cg_meeting_point_name = ''Bar'',
     cg_meeting_point_address = Some ''1 rue X'', cg_meeting_time = Some (time_hms 20 0 0),
     cg_selected_reservations = ids\<rparr>"

definition new_memberships :: "db \<Rightarrow> reservation list \<Rightarrow> datetime \<Rightarrow> group_membership list" where
  \<comment> \<open>The rows that the loop of \<^verbatim>\<open>CreateGroupView.post\<close> writes for the new group when
      every insert goes through: one per reservation, in order.\<close>
  "new_memberships d rs now =
     map (\<lambda>(k, r). \<lparr>m_id = k, m_reservation = r_id r, m_group = seq_group d, m_joined_at = now\<rparr>)
       (enumerate (seq_membership d) rs)"

definition bowling_data :: reservation_data where
  \<comment> \<open>The payload of a booking of the ticket formula for Thursday 2024-06-13.\<close>
  "bowling_data = \<lparr>rd_activity_name = Some ''Bowling'', rd_activity_description = None,
     rd_reservation_date = Value 739050, rd_reservation_time = Value (time_hms 20 0 0),
     rd_venue_name = None, rd_venue_address = None, rd_price_plan = Some ''ticket'',
     rd_price_amount = Some 2500, rd_currency = None, rd_participants_count = None,
     rd_special_requests = None\<rparr>"

definition dev_request :: "reservation_data option \<Rightarrow> confirm_request" where
  \<comment> \<open>A confirmation in the local development mode.\<close>
  "dev_request data = \<lparr>cp_payment_intent_id = ''pi_test_local_dev'', cp_status = ''succeeded'',
     cp_reservation_data = data\<rparr>"

definition no_stripe :: "string \<Rightarrow> payment_intent option" where
  \<comment> \<open>A payment service that knows no intent.\<close>
  "no_stripe payment_intent_id = None"

definition no_note :: "nat \<Rightarrow> string" where
  "no_note reservation_id = []"

definition res_sat :: reservation where
  \<comment> \<open>As \<open>res_thu\<close>, for Saturday 2024-06-15 (ordinal 739052); its deadline is the same
      Tuesday 2024-06-11 at 23:59:00.\<close>
  "res_sat = res_thu\<lparr>r_reservation_date := 739052\<rparr>"

definition sub_free :: user_subscription where
  \<comment> \<open>An active subscription of user 1 that holds no reservation.\<close>
  "sub_free = sub0\<lparr>s_reservations_used := 0, s_current_reservation := None\<rparr>"

definition saturday_data :: reservation_data where
  \<comment> \<open>The payload of a booking for Saturday 2024-06-15.\<close>
  "saturday_data = bowling_data\<lparr>rd_reservation_date := Value 739052\<rparr>"

definition res_wed :: reservation where
  \<comment> \<open>As \<open>res_thu\<close>, for Wednesday 2024-06-12 (ordinal 739049); its deadline is the same
      Tuesday 2024-06-11 at 23:59:00.\<close>
  "res_wed = res_thu\<lparr>r_reservation_date := 739049\<rparr>"

definition db_grouped :: db where
  \<comment> \<open>The two reservations of \<open>db_two\<close>, put in one group by the manual creation.\<close>
  "db_grouped = fst (create_group db_two (group_request [1, 2]) 0)"

definition db_edited :: db where
  \<comment> \<open>The administrator then saves the change form of that group with
      \<^verbatim>\<open>max_participants\<close> set to 1.\<close>
  "db_edited = admin_change_group db_grouped 1
     \<lparr>g_id = 1, g_name = ''G1'', g_event_date = 739050, g_activity_name = ''Bowling'',
      g_meeting_point_name = ''Bar'', g_meeting_point_address = ''1 rue X'',
      g_meeting_time = time_hms 20 0 0, g_location_reveal_time = None,
      g_max_participants = 1, g_is_confirmed = True\<rparr>"

section \<open>Cancellation deadline\<close>

lemma weekday_minus_7: "weekday (d - 7) = weekday d"
  unfolding weekday_def by presburger

lemma weekday_tuesday_before: "weekday (d - (weekday d - 1) mod 7) = 1"
  unfolding weekday_def by presburger

lemma days_before_tuesday_zero: "((weekday d - 1) mod 7 = 0) = (weekday d = 1)"
  unfolding weekday_def by presburger

text \<open>
  C2 (as amended). For every reservation with event date \<open>D\<close> whose deadline is computed by
  \<^verbatim>\<open>set_cancellation_deadline\<close> (which \<^verbatim>\<open>save\<close> calls whenever no deadline is stored yet),
  the stored deadline is 23:59:00 on the Tuesday that is at least 1 and at most 7 days
  before \<open>D\<close>, and is \<open>D\<close> minus 7 days at 23:59:00 when \<open>D\<close> is itself a Tuesday.
\<close>

theorem cancellation_deadline_tuesday:
  "r_cancellation_deadline r = None \<Longrightarrow>
   \<exists>tue. r_cancellation_deadline (reservation_save r) = Some (combine tue (time_hms 23 59 0))
       \<and> weekday tue = 1
       \<and> 1 \<le> r_reservation_date r - tue \<and> r_reservation_date r - tue \<le> 7
       \<and> (weekday (r_reservation_date r) = 1 \<longrightarrow> tue = r_reservation_date r - 7)"
proof -
  assume unset: "r_cancellation_deadline r = None"
  define d where "d = r_reservation_date r"
  define k where "k = (weekday d - 1) mod 7"
  define tue where "tue = (if k = 0 then d - 7 else d - k)"
  have stored: "r_cancellation_deadline (reservation_save r) = Some (combine tue (time_hms 23 59 0))"
    using unset by (simp add: reservation_save_def set_cancellation_deadline_def Let_def
        tue_def k_def d_def)
  have k_range: "0 \<le> k" "k < 7" by (simp_all add: k_def)
  have tue: "weekday tue = 1"
  proof (cases "k = 0")
    case True
    then have "weekday d = 1" using days_before_tuesday_zero [of d] by (simp add: k_def)
    with True show ?thesis by (simp add: tue_def weekday_minus_7)
  next
    case False
    then show ?thesis using weekday_tuesday_before [of d] by (simp add: tue_def k_def)
  qed
  have lo: "1 \<le> d - tue" using k_range by (simp add: tue_def)
  have hi: "d - tue \<le> 7" using k_range by (simp add: tue_def)
  have on_tue: "weekday d = 1 \<longrightarrow> tue = d - 7"
    using days_before_tuesday_zero [of d] by (simp add: tue_def k_def)
  from stored tue lo hi on_tue show ?thesis unfolding d_def by blast
qed

theorem cancellation_deadline_tuesday_witness:
  "r_cancellation_deadline (res_thu\<lparr>r_cancellation_deadline := None\<rparr>) = None \<and>
   (\<exists>tue. r_cancellation_deadline (reservation_save (res_thu\<lparr>r_cancellation_deadline := None\<rparr>))
            = Some (combine tue (time_hms 23 59 0))
       \<and> weekday tue = 1 \<and> 1 \<le> 739050 - tue \<and> 739050 - tue \<le> 7)"
proof -
  have unset: "r_cancellation_deadline (res_thu\<lparr>r_cancellation_deadline := None\<rparr>) = None"
    by simp
  have date: "r_reservation_date (res_thu\<lparr>r_cancellation_deadline := None\<rparr>) = 739050"
    by (simp add: res_thu_def)
  from cancellation_deadline_tuesday [OF unset] show ?thesis
    unfolding date using unset by blast
qed

text \<open>
  C2 as stated fails: for the Thursday 2024-06-13 the stored deadline is Tuesday
  2024-06-11 at 23:59:00, which is not 23:59:59 of that Tuesday.
\<close>

theorem cancellation_deadline_seconds_counterexample:
  "r_cancellation_deadline (reservation_save (res_thu\<lparr>r_cancellation_deadline := None\<rparr>))
     = Some (combine 739048 (time_hms 23 59 0))
   \<and> combine 739048 (time_hms 23 59 0) \<noteq> combine 739048 (time_hms 23 59 59)
   \<and> weekday 739048 = 1"
  by (simp add: res_thu_def reservation_save_def set_cancellation_deadline_def weekday_def
      combine_def time_hms_def Let_def)

section \<open>Tickets\<close>

text \<open>
  C7 (as amended). A ticket is valid iff its status is ACTIVE and it has no expiry or
  \<open>now\<close> is not after its expiry (at the instant of expiry the ticket is still valid).
  Using a valid ticket sets its status to USED and stamps \<open>used_at\<close> and
  \<open>used_for_reservation\<close>; using a ticket that is not valid raises \<^verbatim>\<open>ValueError\<close> before
  any field is written, and so does every further use of a ticket that has been used.
\<close>

theorem ticket_validity_and_single_use:
  "(ticket_is_valid t now \<longleftrightarrow>
      t_status t = ACTIVE \<and> (case t_expires_at t of None \<Rightarrow> True | Some e \<Rightarrow> now \<le> e))
   \<and> (ticket_is_valid t now \<longrightarrow>
        use_ticket t res now =
          Inr (t\<lparr>t_status := USED, t_used_for_reservation := Some res, t_used_at := Some now\<rparr>))
   \<and> (\<not> ticket_is_valid t now \<longrightarrow> use_ticket t res now = Inl ValueError)
   \<and> (\<forall>t'. use_ticket t res now = Inr t' \<longrightarrow> use_ticket t' res' now' = Inl ValueError)"
  by (auto simp add: ticket_is_valid_def use_ticket_def split: option.splits if_splits)

theorem ticket_validity_and_single_use_witness:
  "ticket_is_valid tk0 50 \<and>
   use_ticket tk0 7 50 =
     Inr (tk0\<lparr>t_status := USED, t_used_for_reservation := Some 7, t_used_at := Some 50\<rparr>) \<and>
   use_ticket (tk0\<lparr>t_status := USED, t_used_for_reservation := Some 7, t_used_at := Some 50\<rparr>) 8 60
     = Inl ValueError"
  using ticket_validity_and_single_use [of tk0 50 7 8 60]
  by (simp add: tk0_def ticket_is_valid_def)

text \<open>
  C7 as stated fails at the instant of expiry: the ticket \<open>tk0\<close> expires at 100 and is
  valid at 100, although 100 is not strictly before its expiry.
\<close>

theorem ticket_valid_at_expiry_counterexample:
  "ticket_is_valid tk0 100 \<and> t_expires_at tk0 = Some 100 \<and> \<not> ((100::int) < 100)"
  by (simp add: tk0_def ticket_is_valid_def)

section \<open>Cancelling\<close>

lemma cancel_not_found:
  "objects_get (reservations d) (\<lambda>r. r_id r = rid \<and> r_user r = u) = DoesNotExist \<Longrightarrow>
   reservation_cancel d u rid now = (d, Inl NotFound)"
  by (simp add: reservation_cancel_def)

lemma cancel_multiple:
  "objects_get (reservations d) (\<lambda>r. r_id r = rid \<and> r_user r = u) = MultipleObjectsReturned \<Longrightarrow>
   reservation_cancel d u rid now = (d, Inl InternalError)"
  by (simp add: reservation_cancel_def)

lemma cancel_deadline_passed:
  "objects_get (reservations d) (\<lambda>r. r_id r = rid \<and> r_user r = u) = Found r \<Longrightarrow>
   now > combine (r_reservation_date r - 2) (time_hms 23 59 0) \<Longrightarrow>
   reservation_cancel d u rid now = (d, Inl DeadlinePassed)"
  by (simp add: reservation_cancel_def Let_def)

lemma cancel_issue:
  "objects_get (reservations d) (\<lambda>r. r_id r = rid \<and> r_user r = u) = Found r \<Longrightarrow>
   \<not> now > combine (r_reservation_date r - 2) (time_hms 23 59 0) \<Longrightarrow>
   r_paid_at r \<noteq> None \<Longrightarrow> r_price_plan r = ''TICKET'' \<Longrightarrow>
      \<not> startswith (r_stripe_payment_intent_id r) ''ticket_'' \<Longrightarrow>
      \<not> startswith (r_stripe_payment_intent_id r) ''subscription_'' \<Longrightarrow>
   reservation_cancel d u rid now =
     (reservation_update
        (fst (ticket_objects_create d u (r_price_amount r) ACTIVE CANCELLATION
                (Some (r_id r)) (Some (now + days 180)) []))
        (r\<lparr>r_status := CANCELLED\<rparr>),
      Inr \<lparr>ticket_created = True, ticket_amount = Some (r_price_amount r)\<rparr>)"
  by (simp add: reservation_cancel_def Let_def)

lemma cancel_no_issue_sub:
  "objects_get (reservations d) (\<lambda>r. r_id r = rid \<and> r_user r = u) = Found r \<Longrightarrow>
   \<not> now > combine (r_reservation_date r - 2) (time_hms 23 59 0) \<Longrightarrow>
   r_paid_at r \<noteq> None \<Longrightarrow> 
      startswith (r_stripe_payment_intent_id r) ''subscription_'' \<Longrightarrow>
   reservation_cancel d u rid now =
     (reservation_update (release_subscription_of d u r) (r\<lparr>r_status := CANCELLED\<rparr>),
      Inr \<lparr>ticket_created = False, ticket_amount = None\<rparr>)"
  by (auto simp add: reservation_cancel_def Let_def startswith_def)

lemma cancel_no_issue_other:
  "objects_get (reservations d) (\<lambda>r. r_id r = rid \<and> r_user r = u) = Found r \<Longrightarrow>
   \<not> now > combine (r_reservation_date r - 2) (time_hms 23 59 0) \<Longrightarrow>
   r_paid_at r = None \<or> \<not> startswith (r_stripe_payment_intent_id r) ''subscription_'' \<Longrightarrow>
   r_paid_at r = None \<or> r_price_plan r \<noteq> ''TICKET'' \<or> startswith (r_stripe_payment_intent_id r) ''ticket_'' \<Longrightarrow>
   reservation_cancel d u rid now =
     (reservation_update d (r\<lparr>r_status := CANCELLED\<rparr>),
      Inr \<lparr>ticket_created = False, ticket_amount = None\<rparr>)"
  by (auto simp add: reservation_cancel_def Let_def startswith_def)

lemma tickets_reservation_update [simp]: "tickets (reservation_update d r) = tickets d"
  by (simp add: reservation_update_def)

lemma seq_ticket_reservation_update [simp]: "seq_ticket (reservation_update d r) = seq_ticket d"
  by (simp add: reservation_update_def)

lemma subscriptions_reservation_update [simp]:
  "subscriptions (reservation_update d r) = subscriptions d"
  by (simp add: reservation_update_def)

lemma reservations_reservation_update [simp]:
  "reservations (reservation_update d r) = update_row r_id (reservation_save r) (reservations d)"
  by (simp add: reservation_update_def)

lemma tickets_release_subscription_of [simp]:
  "tickets (release_subscription_of d u r) = tickets d"
  by (simp add: release_subscription_of_def split: option.splits)

lemma reservations_release_subscription_of [simp]:
  "reservations (release_subscription_of d u r) = reservations d"
  by (simp add: release_subscription_of_def split: option.splits)

lemma ticket_objects_create_simps [simp]:
  "tickets (fst (ticket_objects_create d u a st src orig ex notes)) =
     tickets d @ [\<lparr>t_id = seq_ticket d, t_user = u, t_amount = a, t_status = st,
                t_source = src, t_original_reservation = orig,
                t_used_for_reservation = None, t_expires_at = ex, t_used_at = None,
                t_notes = notes\<rparr>]"
  "seq_ticket (fst (ticket_objects_create d u a st src orig ex notes)) = seq_ticket d + 1"
  "reservations (fst (ticket_objects_create d u a st src orig ex notes)) = reservations d"
  "subscriptions (fst (ticket_objects_create d u a st src orig ex notes)) = subscriptions d"
  by (simp_all add: ticket_objects_create_def Let_def)

lemma objects_get_Found_id:
  "objects_get table (\<lambda>x. r_id x = rid \<and> r_user x = u) = Found r \<Longrightarrow> r_id r = rid \<and> r_user r = u"
proof -
  assume "objects_get table (\<lambda>x. r_id x = rid \<and> r_user x = u) = Found r"
  then have "filter (\<lambda>x. r_id x = rid \<and> r_user x = u) table = [r]"
    by (simp add: objects_get_def split: list.splits)
  then have "r \<in> set (filter (\<lambda>x. r_id x = rid \<and> r_user x = u) table)" by simp
  then show ?thesis by simp
qed

lemma objects_first_Some:
  assumes "objects_first table p = Some x"
  shows "x \<in> set table \<and> p x"
proof -
  from assms obtain xs where "filter p table = x # xs"
    by (auto simp add: objects_first_def split: list.splits)
  then have "x \<in> set (filter p table)" by simp
  then show ?thesis by simp
qed

lemma refund_cases:
  "(A \<and> B \<and> \<not> C \<and> \<not> D) \<or> (A \<and> D) \<or> ((\<not> A \<or> \<not> D) \<and> (\<not> A \<or> \<not> B \<or> C))"
  by blast

text \<open>
  C1 (as amended). For every cancel request that passes the deadline gate of the view, a
  replacement ticket is issued iff the reservation was paid (\<open>paid_at\<close> set) and its price
  plan is \<^verbatim>\<open>TICKET\<close> and its settlement reference starts neither with \<^verbatim>\<open>ticket_\<close> nor with
  \<^verbatim>\<open>subscription_\<close>. When it is issued, exactly one ticket is appended: ACTIVE, of amount
  \<open>price_amount\<close>. Otherwise the tickets are unchanged. When the reservation was paid and
  the reference starts with \<^verbatim>\<open>subscription_\<close>, no ticket is issued and the first
  (most recently created) subscription of the user whose \<open>current_reservation\<close> is this reservation, if there is
  one, has its \<open>current_reservation\<close> set to null (and its usage counter decremented).
\<close>

theorem cancel_refund_policy:
  assumes found: "objects_get (reservations d) (\<lambda>x. r_id x = rid \<and> r_user x = u) = Found r"
    and before: "now \<le> combine (r_reservation_date r - 2) (time_hms 23 59 0)"
  shows "\<exists>resp. snd (reservation_cancel d u rid now) = Inr resp \<and>
     (ticket_created resp \<longleftrightarrow>
        r_paid_at r \<noteq> None \<and> r_price_plan r = ''TICKET'' \<and>
        \<not> startswith (r_stripe_payment_intent_id r) ''ticket_'' \<and>
        \<not> startswith (r_stripe_payment_intent_id r) ''subscription_'') \<and>
     (ticket_created resp \<longrightarrow>
        tickets (fst (reservation_cancel d u rid now)) =
          tickets d @ [cancel_ticket u rid (r_price_amount r) now (seq_ticket d)]) \<and>
     (\<not> ticket_created resp \<longrightarrow> tickets (fst (reservation_cancel d u rid now)) = tickets d) \<and>
     (r_paid_at r \<noteq> None \<and> startswith (r_stripe_payment_intent_id r) ''subscription_'' \<longrightarrow>
        \<not> ticket_created resp \<and>
        (\<forall>s. objects_first (newest_first (subscriptions d))
                (\<lambda>s. s_user s = u \<and> s_current_reservation s = Some rid) = Some s \<longrightarrow>
             subscriptions (fst (reservation_cancel d u rid now)) =
               update_row s_id (s\<lparr>s_current_reservation := None,
                                  s_reservations_used := s_reservations_used s - 1\<rparr>)
                 (subscriptions d)))"
proof -
  have gate: "\<not> now > combine (r_reservation_date r - 2) (time_hms 23 59 0)"
    using before by simp
  have rid: "r_id r = rid" using objects_get_Found_id [OF found] by simp
  let ?paid = "r_paid_at r \<noteq> None"
  let ?plan = "r_price_plan r = ''TICKET''"
  let ?tick = "startswith (r_stripe_payment_intent_id r) ''ticket_''"
  let ?subs = "startswith (r_stripe_payment_intent_id r) ''subscription_''"
  have "(?paid \<and> ?plan \<and> \<not> ?tick \<and> \<not> ?subs) \<or> (?paid \<and> ?subs) \<or>
        ((\<not> ?paid \<or> \<not> ?subs) \<and> (\<not> ?paid \<or> \<not> ?plan \<or> ?tick))"
    by (rule refund_cases)
  then consider
      (issue) "r_paid_at r \<noteq> None" "r_price_plan r = ''TICKET''"
        "\<not> startswith (r_stripe_payment_intent_id r) ''ticket_''"
        "\<not> startswith (r_stripe_payment_intent_id r) ''subscription_''"
    | (sub) "r_paid_at r \<noteq> None" "startswith (r_stripe_payment_intent_id r) ''subscription_''"
    | (other) "r_paid_at r = None \<or> \<not> startswith (r_stripe_payment_intent_id r) ''subscription_''"
        "r_paid_at r = None \<or> r_price_plan r \<noteq> ''TICKET'' \<or>
         startswith (r_stripe_payment_intent_id r) ''ticket_''"
    by (elim disjE conjE) simp_all
  then show ?thesis
  proof cases
    case issue
    note c = cancel_issue [OF found gate issue]
    show ?thesis using issue by (simp add: c cancel_ticket_def rid)
  next
    case sub
    note c = cancel_no_issue_sub [OF found gate sub]
    have "\<And>s. objects_first (newest_first (subscriptions d))
                (\<lambda>s. s_user s = u \<and> s_current_reservation s = Some rid) = Some s \<Longrightarrow>
             subscriptions (release_subscription_of d u r) =
               update_row s_id (s\<lparr>s_current_reservation := None,
                                  s_reservations_used := s_reservations_used s - 1\<rparr>)
                 (subscriptions d)"
    proof -
      fix s
      assume a: "objects_first (newest_first (subscriptions d))
                (\<lambda>s. s_user s = u \<and> s_current_reservation s = Some rid) = Some s"
      then have "s_current_reservation s = Some rid"
        using objects_first_Some [OF a] by simp
      with a show "subscriptions (release_subscription_of d u r) =
               update_row s_id (s\<lparr>s_current_reservation := None,
                                  s_reservations_used := s_reservations_used s - 1\<rparr>)
                 (subscriptions d)"
        by (simp add: release_subscription_of_def rid release_reservation_def)
    qed
    then show ?thesis using sub by (simp add: c)
  next
    case other
    note c = cancel_no_issue_other [OF found gate other]
    show ?thesis using other by (auto simp add: c)
  qed
qed

theorem cancel_refund_policy_witness:
  "objects_get (reservations (db_of res_sub\<lparr>subscriptions := [sub0]\<rparr>))
     (\<lambda>x. r_id x = 1 \<and> r_user x = 1) = Found res_sub \<and>
   (0::int) \<le> combine (r_reservation_date res_sub - 2) (time_hms 23 59 0) \<and>
   (\<exists>resp. snd (reservation_cancel (db_of res_sub\<lparr>subscriptions := [sub0]\<rparr>) 1 1 0) =
     Inr resp \<and> \<not> ticket_created resp) \<and>
   tickets (fst (reservation_cancel (db_of res_sub\<lparr>subscriptions := [sub0]\<rparr>) 1 1 0)) = [] \<and>
   subscriptions (fst (reservation_cancel (db_of res_sub\<lparr>subscriptions := [sub0]\<rparr>) 1 1 0)) =
     [sub0\<lparr>s_current_reservation := None, s_reservations_used := 0\<rparr>]"
proof -
  let ?d = "db_of res_sub\<lparr>subscriptions := [sub0]\<rparr>"
  have found: "objects_get (reservations ?d) (\<lambda>x. r_id x = 1 \<and> r_user x = 1) = Found res_sub"
    by (simp add: db_of_def res_sub_def res_thu_def objects_get_def)
  have before: "(0::int) \<le> combine (r_reservation_date res_sub - 2) (time_hms 23 59 0)"
    by (simp add: res_sub_def res_thu_def combine_def time_hms_def)
  have paid: "r_paid_at res_sub \<noteq> None"
    "startswith (r_stripe_payment_intent_id res_sub) ''subscription_''"
    by (simp_all add: res_sub_def res_thu_def startswith_def)
  have first: "objects_first (newest_first (subscriptions ?d))
     (\<lambda>s. s_user s = 1 \<and> s_current_reservation s = Some 1) = Some sub0"
    by (simp add: db_of_def objects_first_def newest_first_def sub0_def)
  have used: "s_reservations_used sub0 - 1 = 0" "s_id sub0 = 1" by (simp_all add: sub0_def)
  from cancel_refund_policy [OF found before] paid first used found before
  show ?thesis
    by (auto simp add: update_row_def db_of_def)
qed

text \<open>
  C1 as stated fails: \<open>res_basic\<close> is paid, its reference \<^verbatim>\<open>pi_1\<close> starts neither with
  \<^verbatim>\<open>ticket_\<close> nor with \<^verbatim>\<open>subscription_\<close>, and cancelling it before the deadline issues
  no ticket, because its plan is not \<^verbatim>\<open>TICKET\<close>.
\<close>

theorem cancel_refund_plan_counterexample:
  "r_paid_at res_basic \<noteq> None \<and>
   \<not> startswith (r_stripe_payment_intent_id res_basic) ''ticket_'' \<and>
   \<not> startswith (r_stripe_payment_intent_id res_basic) ''subscription_'' \<and>
   snd (reservation_cancel (db_of res_basic) 1 1 0) =
     Inr \<lparr>ticket_created = False, ticket_amount = None\<rparr> \<and>
   tickets (fst (reservation_cancel (db_of res_basic) 1 1 0)) = []"
  by (simp add: res_basic_def res_thu_def db_of_def reservation_cancel_def objects_get_def
      startswith_def combine_def time_hms_def Let_def reservation_update_def)

lemma cancel_error_unchanged:
  "snd (reservation_cancel d u rid now) = Inl e \<Longrightarrow> fst (reservation_cancel d u rid now) = d"
  by (auto simp add: reservation_cancel_def Let_def
      split: get_result.splits if_splits prod.splits)

lemma cancel_succeeds:
  "objects_get (reservations d) (\<lambda>r. r_id r = rid \<and> r_user r = u) = Found r \<Longrightarrow>
   \<not> now > combine (r_reservation_date r - 2) (time_hms 23 59 0) \<Longrightarrow>
   \<exists>resp. snd (reservation_cancel d u rid now) = Inr resp"
  by (simp add: reservation_cancel_def Let_def split: prod.splits)

lemma thursday_deadline:
  "weekday (r_reservation_date r) = 3 \<Longrightarrow>
   r_cancellation_deadline (set_cancellation_deadline r) =
     Some (combine (r_reservation_date r - 2) (time_hms 23 59 0))"
  by (simp add: set_cancellation_deadline_def Let_def)

text \<open>
  The gate of the cancel view on a Thursday. For a reservation on a Thursday whose stored
  \<open>cancellation_deadline\<close> is the one computed by \<^verbatim>\<open>set_cancellation_deadline\<close>, the day that
  the view takes is the stored Tuesday: the cancel operation fails with the
  deadline-passed error iff \<open>now\<close> is strictly after the stored deadline, and it succeeds
  iff the reservation is modifiable or \<open>now\<close> is the deadline itself. A failed cancel,
  whatever the error, leaves the whole database unchanged.
\<close>

lemma cancel_gating_thursday:
  assumes found: "objects_get (reservations d) (\<lambda>x. r_id x = rid \<and> r_user x = u) = Found r"
    and thursday: "weekday (r_reservation_date r) = 3"
    and stored: "r_cancellation_deadline r = r_cancellation_deadline (set_cancellation_deadline r)"
  shows "(snd (reservation_cancel d u rid now) = Inl DeadlinePassed \<longleftrightarrow>
            (\<exists>dl. r_cancellation_deadline r = Some dl \<and> dl < now))
       \<and> ((\<exists>resp. snd (reservation_cancel d u rid now) = Inr resp) \<longleftrightarrow>
            is_modifiable r now \<or> r_cancellation_deadline r = Some now)
       \<and> (\<forall>e. snd (reservation_cancel d u rid now) = Inl e \<longrightarrow>
            fst (reservation_cancel d u rid now) = d)"
proof -
  let ?dl = "combine (r_reservation_date r - 2) (time_hms 23 59 0)"
  have dl: "r_cancellation_deadline r = Some ?dl"
    using stored thursday_deadline [OF thursday] by simp
  have unchanged: "\<forall>e. snd (reservation_cancel d u rid now) = Inl e \<longrightarrow>
            fst (reservation_cancel d u rid now) = d"
    using cancel_error_unchanged by blast
  show ?thesis
  proof (cases "now > ?dl")
    case True
    have "reservation_cancel d u rid now = (d, Inl DeadlinePassed)"
      using found True by (rule cancel_deadline_passed)
    with True dl unchanged show ?thesis by (simp add: is_modifiable_def)
  next
    case False
    from cancel_succeeds [OF found False]
    obtain resp where "snd (reservation_cancel d u rid now) = Inr resp" by blast
    with False dl unchanged show ?thesis by (auto simp add: is_modifiable_def)
  qed
qed

lemma cancel_gating_thursday_example:
  "objects_get (reservations (db_of res_thu)) (\<lambda>x. r_id x = 1 \<and> r_user x = 1) = Found res_thu \<and>
   weekday (r_reservation_date res_thu) = 3 \<and>
   r_cancellation_deadline res_thu = r_cancellation_deadline (set_cancellation_deadline res_thu) \<and>
   snd (reservation_cancel (db_of res_thu) 1 1 (combine 739049 0)) = Inl DeadlinePassed \<and>
   fst (reservation_cancel (db_of res_thu) 1 1 (combine 739049 0)) = db_of res_thu"
proof -
  have found: "objects_get (reservations (db_of res_thu)) (\<lambda>x. r_id x = 1 \<and> r_user x = 1)
                 = Found res_thu"
    by (simp add: db_of_def res_thu_def objects_get_def)
  have thursday: "weekday (r_reservation_date res_thu) = 3"
    by (simp add: res_thu_def weekday_def)
  have stored: "r_cancellation_deadline res_thu =
                r_cancellation_deadline (set_cancellation_deadline res_thu)"
    by (simp add: res_thu_def set_cancellation_deadline_def weekday_def Let_def)
  have late: "r_cancellation_deadline res_thu = Some (combine 739048 (time_hms 23 59 0))"
    "combine 739048 (time_hms 23 59 0) < combine 739049 0"
    by (simp_all add: res_thu_def combine_def time_hms_def)
  from cancel_gating_thursday [OF found thursday stored, of "combine 739049 0"] late found thursday stored
  show ?thesis by simp
qed

text \<open>
  C3. The claim does not hold of the code: the cancel view never reads the stored
  \<open>cancellation_deadline\<close> nor \<^verbatim>\<open>is_modifiable\<close>, it takes the day two days before the
  reservation date at 23:59:00 and refuses only when \<open>now\<close> is strictly later.
  \<^item> For the reservation of Wednesday 2024-06-12, whose stored deadline is Tuesday
    2024-06-11 at 23:59:00, a cancel on that Tuesday at 12:00 is refused with the
    deadline-passed error although the reservation is modifiable.
  \<^item> For the reservation of Saturday 2024-06-15, with the same stored deadline, a cancel
    on Wednesday 2024-06-12 at 12:00 succeeds although the deadline has passed.
  \<^item> For the reservation of Thursday 2024-06-13, a cancel at the stored deadline itself
    succeeds although the reservation is no longer modifiable.
  In the three cases the stored deadline is the one that \<^verbatim>\<open>Reservation.save\<close> computes.
\<close>

theorem cancel_gate_diverges:
  "r_cancellation_deadline (reservation_save (res_wed\<lparr>r_cancellation_deadline := None\<rparr>))
     = r_cancellation_deadline res_wed \<and>
   r_cancellation_deadline res_wed = Some (combine 739048 (time_hms 23 59 0)) \<and>
   is_modifiable res_wed (combine 739048 (time_hms 12 0 0)) \<and>
   reservation_cancel (db_of res_wed) 1 1 (combine 739048 (time_hms 12 0 0)) =
     (db_of res_wed, Inl DeadlinePassed) \<and>
   r_cancellation_deadline (reservation_save (res_sat\<lparr>r_cancellation_deadline := None\<rparr>))
     = r_cancellation_deadline res_sat \<and>
   r_cancellation_deadline res_sat = Some (combine 739048 (time_hms 23 59 0)) \<and>
   \<not> is_modifiable res_sat (combine 739049 (time_hms 12 0 0)) \<and>
   snd (reservation_cancel (db_of res_sat) 1 1 (combine 739049 (time_hms 12 0 0))) =
     Inr \<lparr>ticket_created = True, ticket_amount = Some 2500\<rparr> \<and>
   r_cancellation_deadline (reservation_save (res_thu\<lparr>r_cancellation_deadline := None\<rparr>))
     = r_cancellation_deadline res_thu \<and>
   r_cancellation_deadline res_thu = Some (combine 739048 (time_hms 23 59 0)) \<and>
   \<not> is_modifiable res_thu (combine 739048 (time_hms 23 59 0)) \<and>
   snd (reservation_cancel (db_of res_thu) 1 1 (combine 739048 (time_hms 23 59 0))) =
     Inr \<lparr>ticket_created = True, ticket_amount = Some 2500\<rparr>"
  by (simp add: res_wed_def res_sat_def res_thu_def db_of_def reservation_cancel_def
      objects_get_def is_modifiable_def reservation_save_def set_cancellation_deadline_def
      weekday_def startswith_def combine_def time_hms_def Let_def)

section \<open>Repeated cancellation\<close>

lemma filter_update_row:
  "filter (\<lambda>x. pk x = pk y) (update_row pk y table) = map (\<lambda>_. y) (filter (\<lambda>x. pk x = pk y) table)"
  by (induction table) (simp_all add: update_row_def)

lemma objects_get_unique:
  "filter (\<lambda>x. r_id x = rid) table = [r] \<Longrightarrow> r_user r = u \<Longrightarrow>
   objects_get table (\<lambda>x. r_id x = rid \<and> r_user x = u) = Found r"
proof -
  assume a: "filter (\<lambda>x. r_id x = rid) table = [r]" and b: "r_user r = u"
  have "filter (\<lambda>x. r_id x = rid \<and> r_user x = u) table
        = filter (\<lambda>x. r_user x = u) (filter (\<lambda>x. r_id x = rid) table)"
    by (simp add: conj_commute)
  with a b show ?thesis by (simp add: objects_get_def)
qed

lemma reservation_save_fields [simp]:
  "r_id (reservation_save r) = r_id r"
  "r_user (reservation_save r) = r_user r"
  "r_paid_at (reservation_save r) = r_paid_at r"
  "r_price_plan (reservation_save r) = r_price_plan r"
  "r_price_amount (reservation_save r) = r_price_amount r"
  "r_stripe_payment_intent_id (reservation_save r) = r_stripe_payment_intent_id r"
  "r_reservation_date (reservation_save r) = r_reservation_date r"
  "r_status (reservation_save r) = r_status r"
  by (simp_all add: reservation_save_def set_cancellation_deadline_def Let_def)

lemma cancel_step:
  assumes "filter (\<lambda>x. r_id x = rid) (reservations d) = [r]" and "r_user r = u"
    and "r_paid_at r \<noteq> None" and "r_price_plan r = ''TICKET''"
    and "\<not> startswith (r_stripe_payment_intent_id r) ''ticket_''"
    and "\<not> startswith (r_stripe_payment_intent_id r) ''subscription_''"
    and "now \<le> combine (r_reservation_date r - 2) (time_hms 23 59 0)"
  shows "snd (reservation_cancel d u rid now) =
           Inr \<lparr>ticket_created = True, ticket_amount = Some (r_price_amount r)\<rparr>"
    and "tickets (fst (reservation_cancel d u rid now)) =
           tickets d @ [cancel_ticket u rid (r_price_amount r) now (seq_ticket d)]"
    and "seq_ticket (fst (reservation_cancel d u rid now)) = seq_ticket d + 1"
    and "filter (\<lambda>x. r_id x = rid) (reservations (fst (reservation_cancel d u rid now))) =
           [reservation_save (r\<lparr>r_status := CANCELLED\<rparr>)]"
proof -
  have found: "objects_get (reservations d) (\<lambda>x. r_id x = rid \<and> r_user x = u) = Found r"
    using assms(1,2) by (rule objects_get_unique)
  have rid: "r_id r = rid"
    using objects_get_Found_id [OF found] by simp
  have gate: "\<not> now > combine (r_reservation_date r - 2) (time_hms 23 59 0)"
    using assms(7) by simp
  note c = cancel_issue [OF found gate assms(3,4,5,6)]
  show "snd (reservation_cancel d u rid now) =
           Inr \<lparr>ticket_created = True, ticket_amount = Some (r_price_amount r)\<rparr>"
    by (simp add: c)
  show "tickets (fst (reservation_cancel d u rid now)) =
           tickets d @ [cancel_ticket u rid (r_price_amount r) now (seq_ticket d)]"
    by (simp add: c cancel_ticket_def rid)
  show "seq_ticket (fst (reservation_cancel d u rid now)) = seq_ticket d + 1"
    by (simp add: c)
  have "filter (\<lambda>x. r_id x = r_id (reservation_save (r\<lparr>r_status := CANCELLED\<rparr>)))
          (update_row r_id (reservation_save (r\<lparr>r_status := CANCELLED\<rparr>)) (reservations d))
        = map (\<lambda>_. reservation_save (r\<lparr>r_status := CANCELLED\<rparr>))
            (filter (\<lambda>x. r_id x = r_id (reservation_save (r\<lparr>r_status := CANCELLED\<rparr>))) (reservations d))"
    by (rule filter_update_row)
  then show "filter (\<lambda>x. r_id x = rid) (reservations (fst (reservation_cancel d u rid now))) =
           [reservation_save (r\<lparr>r_status := CANCELLED\<rparr>)]"
    using assms(1) by (simp add: c rid)
qed

text \<open>
  C10. The cancel operation does not look at the reservation's status. For a paid
  reservation on the plan \<^verbatim>\<open>TICKET\<close> that was paid directly, and \<open>now\<close> not after the
  view's deadline, \<open>n\<close> cancel requests in a row append \<open>n\<close> ACTIVE tickets of the full
  \<open>price_amount\<close>, and the next request (on a reservation that is CANCELLED as soon as
  \<open>n > 0\<close>) succeeds again and issues one more. The hypotheses put no condition on
  \<open>r_status\<close>: it may be CANCELLED or COMPLETED from the start.
\<close>

theorem cancel_not_idempotent:
  assumes "filter (\<lambda>x. r_id x = rid) (reservations d) = [r]" and "r_user r = u"
    and "r_paid_at r \<noteq> None" and "r_price_plan r = ''TICKET''"
    and "\<not> startswith (r_stripe_payment_intent_id r) ''ticket_''"
    and "\<not> startswith (r_stripe_payment_intent_id r) ''subscription_''"
    and "now \<le> combine (r_reservation_date r - 2) (time_hms 23 59 0)"
  shows "tickets (cancel_times n d u rid now) =
           tickets d @ map (\<lambda>k. cancel_ticket u rid (r_price_amount r) now (seq_ticket d + k)) [0..<n]
         \<and> snd (reservation_cancel (cancel_times n d u rid now) u rid now) =
           Inr \<lparr>ticket_created = True, ticket_amount = Some (r_price_amount r)\<rparr>"
  using assms
proof (induction n arbitrary: d r)
  case 0
  then show ?case using cancel_step(1) [of rid d r u now] by simp
next
  case (Suc n)
  let ?d = "fst (reservation_cancel d u rid now)"
  let ?r = "reservation_save (r\<lparr>r_status := CANCELLED\<rparr>)"
  note st = cancel_step [OF Suc.prems]
  have ih: "tickets (cancel_times n ?d u rid now) =
           tickets ?d @ map (\<lambda>k. cancel_ticket u rid (r_price_amount ?r) now (seq_ticket ?d + k)) [0..<n]
         \<and> snd (reservation_cancel (cancel_times n ?d u rid now) u rid now) =
           Inr \<lparr>ticket_created = True, ticket_amount = Some (r_price_amount ?r)\<rparr>"
    using Suc.prems by (intro Suc.IH [OF st(4)]) simp_all
  have "map (\<lambda>k. cancel_ticket u rid (r_price_amount r) now (seq_ticket d + k)) [0..<Suc n]
        = cancel_ticket u rid (r_price_amount r) now (seq_ticket d)
          # map (\<lambda>k. cancel_ticket u rid (r_price_amount r) now (seq_ticket d + 1 + k)) [0..<n]"
    by (simp add: upt_conv_Cons map_Suc_upt [symmetric] del: upt_Suc)
  with ih st(2,3) show ?case by simp
qed

theorem cancel_not_idempotent_witness:
  "r_status (res_thu\<lparr>r_status := CANCELLED\<rparr>) = CANCELLED \<and>
   tickets (cancel_times 2 (db_of (res_thu\<lparr>r_status := CANCELLED\<rparr>)) 1 1 0) =
     [cancel_ticket 1 1 2500 0 1, cancel_ticket 1 1 2500 0 2] \<and>
   snd (reservation_cancel (cancel_times 2 (db_of (res_thu\<lparr>r_status := CANCELLED\<rparr>)) 1 1 0) 1 1 0) =
     Inr \<lparr>ticket_created = True, ticket_amount = Some 2500\<rparr>"
proof -
  let ?r = "res_thu\<lparr>r_status := CANCELLED\<rparr>"
  have h1: "filter (\<lambda>x. r_id x = 1) (reservations (db_of ?r)) = [?r]"
    by (simp add: db_of_def res_thu_def)
  have h2: "r_user ?r = 1" by (simp add: res_thu_def)
  have h3: "r_paid_at ?r \<noteq> None" by (simp add: res_thu_def)
  have h4: "r_price_plan ?r = ''TICKET''" by (simp add: res_thu_def)
  have h5: "\<not> startswith (r_stripe_payment_intent_id ?r) ''ticket_''"
    by (simp add: res_thu_def startswith_def)
  have h6: "\<not> startswith (r_stripe_payment_intent_id ?r) ''subscription_''"
    by (simp add: res_thu_def startswith_def)
  have h7: "0 \<le> combine (r_reservation_date ?r - 2) (time_hms 23 59 0)"
    by (simp add: res_thu_def combine_def time_hms_def)
  have up: "[0..<2] = [0, 1]" by (simp add: upt_rec)
  have vals: "r_price_amount ?r = 2500" "tickets (db_of ?r) = []" "seq_ticket (db_of ?r) = 1"
    by (simp_all add: res_thu_def db_of_def)
  from cancel_not_idempotent [OF h1 h2 h3 h4 h5 h6 h7, of 2]
  show ?thesis unfolding up vals by (simp add: numeral_2_eq_2)
qed

section \<open>Friend invitations\<close>

lemma invitation_is_valid_iff:
  "invitation_is_valid i now \<longleftrightarrow> i_status i = INV_PENDING \<and> now < i_expires_at i"
  by (simp add: invitation_is_valid_def)

lemma accept_expired_unchanged:
  "objects_get (invitations d) (\<lambda>i. i_invitation_token i = tok) = Found i \<Longrightarrow>
   i_expires_at i \<le> now \<Longrightarrow>
   accept_invitation d tok req now = (d, Inl Expired)"
  by (simp add: accept_invitation_def invitation_is_valid_def)

lemma create_invitation_expires_at:
  "create_invitation d inviter email r msg tok now = Inr (d', i) \<Longrightarrow>
   i_expires_at i = combine (r_reservation_date r) (time_hms 0 0 59)"
  by (auto simp add: create_invitation_def Let_def combine_def time_hms_def minutes_def
      split: if_splits)

text \<open>
  C5. The claim holds of \<^verbatim>\<open>is_valid\<close> and of accepting after \<open>expires_at\<close>, but not of
  \<open>expires_at\<close> itself: \<^verbatim>\<open>create_invitation\<close> takes 23:59:59 of the day before the
  reservation date and adds one minute, which is 00:00:59 of the reservation date
  itself. For the reservation of Thursday 2024-06-13 (ordinal 739050) the invitation
  expires on that Thursday at 00:00:59 and not on Wednesday 2024-06-12 (ordinal 739049)
  at 00:00, so that an acceptance on Wednesday at 23:00 goes through and binds the user.
\<close>

theorem invitation_expires_at_thursday:
  "inv_created = Inr ((db_of res_thu)\<lparr>invitations := [inv0], seq_invitation := 2\<rparr>, inv0) \<and>
   i_expires_at inv0 = combine 739050 (time_hms 0 0 59) \<and>
   i_expires_at inv0 \<noteq> combine 739049 (time_hms 0 0 0) \<and>
   weekday 739049 = 2 \<and>
   snd (accept_invitation ((db_of res_thu)\<lparr>invitations := [inv0], seq_invitation := 2\<rparr>)
          ''0123456789abcdef0123456789abcdef'' friend_request
          (combine 739049 (time_hms 23 0 0))) = Inr 1"
  by (simp add: inv_created_def create_invitation_def inv0_def res_thu_def db_of_def
      friend_request_def accept_invitation_def objects_get_def invitation_is_valid_def
      lower_def weekday_def combine_def time_hms_def minutes_def Let_def)

section \<open>Materialising the invited user's reservation\<close>

lemma filter_update_row_none:
  assumes one: "filter p table = [x]" and pk: "pk y = pk x" and no: "\<not> p y"
  shows "filter p (update_row pk y table) = []"
proof -
  have "\<not> p z" if z: "z \<in> set (update_row pk y table)" for z
  proof -
    from z obtain w where w: "w \<in> set table" and zw: "z = (if pk w = pk y then y else w)"
      by (auto simp add: update_row_def)
    show ?thesis
    proof (cases "pk w = pk y")
      case True
      with zw no show ?thesis by simp
    next
      case False
      have "\<not> p w"
      proof
        assume "p w"
        with w have "w \<in> set (filter p table)" by simp
        with one have "w = x" by simp
        with pk False show False by simp
      qed
      with zw False show ?thesis by simp
    qed
  qed
  then show ?thesis by (simp add: filter_empty_conv)
qed

lemma process_found:
  assumes iv: "objects_get (invitations d)
                  (\<lambda>i. i_invited_user i = Some u \<and> i_status i = INV_ACCEPTED) = Found iv"
    and orig: "objects_get (reservations d) (\<lambda>r. r_id r = i_reservation iv) = Found orig"
  shows "process_invited_user d u now =
     (d\<lparr>reservations := reservations d @ [cloned d u orig],
        seq_reservation := seq_reservation d + 1,
        invitations := update_row i_id (mark_as_used iv now) (invitations d)\<rparr>,
      Inr (cloned d u orig))"
proof -
  from iv have "filter (\<lambda>i. i_invited_user i = Some u \<and> i_status i = INV_ACCEPTED)
                   (invitations d) = [iv]"
    by (simp add: objects_get_def split: list.splits)
  then have "iv \<in> set (filter (\<lambda>i. i_invited_user i = Some u \<and> i_status i = INV_ACCEPTED)
                   (invitations d))" by simp
  then have "can_be_used iv" by (simp add: can_be_used_def)
  with iv orig show ?thesis
    by (simp add: process_invited_user_def reservation_objects_create_def cloned_def Let_def)
qed


text \<open>
  C6 (as amended). For a user who has exactly one ACCEPTED invitation (its inviter's
  reservation being stored), the materialize-reservation operation appends exactly one
  reservation: PENDING, owned by the invited user, with the activity, description, date,
  time, venue, price plan, price amount and currency of the inviter's reservation; and it
  marks the invitation USED. A second call by the same user then fails with the
  not-found error (no ACCEPTED invitation is left) and changes nothing.
\<close>

theorem materialize_single_use:
  assumes iv: "objects_get (invitations d)
                  (\<lambda>i. i_invited_user i = Some u \<and> i_status i = INV_ACCEPTED) = Found iv"
    and orig: "objects_get (reservations d) (\<lambda>r. r_id r = i_reservation iv) = Found orig"
  shows "(\<exists>r. snd (process_invited_user d u now) = Inr r \<and>
            reservations (fst (process_invited_user d u now)) = reservations d @ [r] \<and>
            r_user r = u \<and> r_status r = PENDING \<and>
            r_activity_name r = r_activity_name orig \<and>
            r_activity_description r = r_activity_description orig \<and>
            r_reservation_date r = r_reservation_date orig \<and>
            r_reservation_time r = r_reservation_time orig \<and>
            r_venue_name r = r_venue_name orig \<and>
            r_venue_address r = r_venue_address orig \<and>
            r_price_plan r = r_price_plan orig \<and>
            r_price_amount r = r_price_amount orig \<and>
            r_currency r = r_currency orig)
       \<and> invitations (fst (process_invited_user d u now)) =
            update_row i_id (iv\<lparr>i_status := INV_USED, i_used_at := Some now\<rparr>) (invitations d)
       \<and> process_invited_user (fst (process_invited_user d u now)) u now' =
            (fst (process_invited_user d u now), Inl NotFound)"
proof -
  let ?p = "\<lambda>i. i_invited_user i = Some u \<and> i_status i = INV_ACCEPTED"
  note first = process_found [OF iv orig, of now]
  have one: "filter ?p (invitations d) = [iv]"
    using iv by (simp add: objects_get_def split: list.splits)
  have "filter ?p (update_row i_id (mark_as_used iv now) (invitations d)) = []"
    using one by (rule filter_update_row_none) (simp_all add: mark_as_used_def)
  moreover define d1 where "d1 = fst (process_invited_user d u now)"
  moreover have "invitations d1 = update_row i_id (mark_as_used iv now) (invitations d)"
    by (simp add: d1_def first)
  ultimately have "process_invited_user d1 u now' = (d1, Inl NotFound)"
    by (simp add: process_invited_user_def objects_get_def)
  then have second: "process_invited_user (fst (process_invited_user d u now)) u now' =
            (fst (process_invited_user d u now), Inl NotFound)"
    by (simp add: d1_def)
  have fields: "r_user (cloned d u orig) = u \<and> r_status (cloned d u orig) = PENDING \<and>
            r_activity_name (cloned d u orig) = r_activity_name orig \<and>
            r_activity_description (cloned d u orig) = r_activity_description orig \<and>
            r_reservation_date (cloned d u orig) = r_reservation_date orig \<and>
            r_reservation_time (cloned d u orig) = r_reservation_time orig \<and>
            r_venue_name (cloned d u orig) = r_venue_name orig \<and>
            r_venue_address (cloned d u orig) = r_venue_address orig \<and>
            r_price_plan (cloned d u orig) = r_price_plan orig \<and>
            r_price_amount (cloned d u orig) = r_price_amount orig \<and>
            r_currency (cloned d u orig) = r_currency orig"
    by (simp add: cloned_def reservation_save_def set_cancellation_deadline_def Let_def)
  have used: "invitations (fst (process_invited_user d u now)) =
            update_row i_id (iv\<lparr>i_status := INV_USED, i_used_at := Some now\<rparr>) (invitations d)"
    by (simp add: first mark_as_used_def)
  have "snd (process_invited_user d u now) = Inr (cloned d u orig) \<and>
        reservations (fst (process_invited_user d u now)) = reservations d @ [cloned d u orig]"
    by (simp add: first)
  with fields used second show ?thesis by blast
qed

theorem materialize_single_use_witness:
  "(\<exists>r. snd (process_invited_user db_accepted 2 (combine 739047 (time_hms 12 0 0))) = Inr r \<and>
        reservations (fst (process_invited_user db_accepted 2 (combine 739047 (time_hms 12 0 0))))
          = [res_thu, r] \<and>
        r_user r = 2 \<and> r_status r = PENDING \<and> r_activity_name r = ''Bowling'' \<and>
        r_reservation_date r = 739050 \<and> r_price_amount r = 2500) \<and>
   process_invited_user
     (fst (process_invited_user db_accepted 2 (combine 739047 (time_hms 12 0 0)))) 2
     (combine 739047 (time_hms 13 0 0))
   = (fst (process_invited_user db_accepted 2 (combine 739047 (time_hms 12 0 0))), Inl NotFound)"
proof -
  have iv: "objects_get (invitations db_accepted)
              (\<lambda>i. i_invited_user i = Some 2 \<and> i_status i = INV_ACCEPTED)
            = Found (mark_as_accepted inv0 2 (combine 739047 (time_hms 11 0 0)))"
    by (simp add: db_accepted_def db_of_def objects_get_def mark_as_accepted_def)
  have orig: "objects_get (reservations db_accepted)
                (\<lambda>r. r_id r = i_reservation (mark_as_accepted inv0 2 (combine 739047 (time_hms 11 0 0))))
              = Found res_thu"
    by (simp add: db_accepted_def db_of_def objects_get_def mark_as_accepted_def inv0_def
        res_thu_def)
  have vals: "reservations db_accepted = [res_thu]" "r_activity_name res_thu = ''Bowling''"
    "r_reservation_date res_thu = 739050" "r_price_amount res_thu = 2500"
    by (simp_all add: db_accepted_def db_of_def res_thu_def)
  from materialize_single_use [OF iv orig, of "combine 739047 (time_hms 12 0 0)"
      "combine 739047 (time_hms 13 0 0)"] vals
  show ?thesis by auto
qed

text \<open>
  C6 as stated fails: after the first call the second call of user 2 answers with the
  not-found error (HTTP 404), not with the invalid-state error (HTTP 400).
\<close>

theorem materialize_second_call_counterexample:
  "snd (process_invited_user
          (fst (process_invited_user db_accepted 2 (combine 739047 (time_hms 12 0 0)))) 2
          (combine 739047 (time_hms 13 0 0))) = Inl NotFound
   \<and> NotFound \<noteq> InvalidState"
  by (simp add: db_accepted_def db_of_def inv0_def res_thu_def process_invited_user_def
      objects_get_def mark_as_accepted_def mark_as_used_def can_be_used_def
      reservation_objects_create_def update_row_def Let_def)

section \<open>Group capacity\<close>

lemma participants_count_le_members:
  "participants_count d g \<le> length (members d (g_id g))"
proof -
  have "filter (\<lambda>m. m_group m = g_id g \<and>
                  list_ex (\<lambda>r. r_id r = m_reservation m \<and> r_status r = CONFIRMED) (reservations d))
          (memberships d)
        = filter (\<lambda>m. list_ex (\<lambda>r. r_id r = m_reservation m \<and> r_status r = CONFIRMED)
                    (reservations d)) (members d (g_id g))"
    by (simp add: members_def conj_commute)
  then show ?thesis by (simp add: participants_count_def)
qed

lemma membership_objects_create_Inr:
  assumes "membership_objects_create d gid rid now = Inr d1"
  shows "\<exists>m. memberships d1 = memberships d @ [m] \<and> m_group m = gid \<and> m_reservation m = rid"
    and "rid \<notin> m_reservation ` set (memberships d)"
    and "groups d1 = groups d" and "seq_group d1 = seq_group d"
    and "reservations d1 = reservations d"
  using assms
  by (auto simp add: membership_objects_create_def list_ex_iff split: if_splits)

lemma add_memberships_new:
  "add_memberships d gid rs now = (d', err) \<Longrightarrow>
   \<exists>new. memberships d' = memberships d @ new \<and>
         (\<forall>m \<in> set new. m_group m = gid \<and> m_reservation m \<in> r_id ` set rs \<and>
                          m_reservation m \<notin> m_reservation ` set (memberships d)) \<and>
         distinct (map m_reservation new) \<and> length new \<le> length rs \<and>
         groups d' = groups d \<and> seq_group d' = seq_group d \<and> reservations d' = reservations d"
proof (induction rs arbitrary: d)
  case Nil
  then show ?case by simp
next
  case (Cons r rs)
  show ?case
  proof (cases "membership_objects_create d gid (r_id r) now")
    case (Inl e)
    with Cons.prems have "d' = d" by simp
    then show ?thesis by simp
  next
    case (Inr d1)
    from membership_objects_create_Inr [OF Inr]
    obtain m where m: "memberships d1 = memberships d @ [m]" "m_group m = gid"
        "m_reservation m = r_id r"
      and fresh: "r_id r \<notin> m_reservation ` set (memberships d)"
      and same: "groups d1 = groups d" "seq_group d1 = seq_group d"
        "reservations d1 = reservations d"
      by blast
    from Cons.prems Inr have "add_memberships d1 gid rs now = (d', err)" by simp
    from Cons.IH [OF this]
    obtain new where new: "memberships d' = memberships d1 @ new"
      and each: "\<forall>x \<in> set new. m_group x = gid \<and> m_reservation x \<in> r_id ` set rs \<and>
                          m_reservation x \<notin> m_reservation ` set (memberships d1)"
      and dist: "distinct (map m_reservation new)" and len: "length new \<le> length rs"
      and same': "groups d' = groups d1" "seq_group d' = seq_group d1"
        "reservations d' = reservations d1"
      by blast
    have a: "memberships d' = memberships d @ (m # new)" using new m by simp
    have b: "\<forall>x \<in> set (m # new). m_group x = gid \<and> m_reservation x \<in> r_id ` set (r # rs) \<and>
                          m_reservation x \<notin> m_reservation ` set (memberships d)"
      using each m fresh by auto
    have "m_reservation m \<notin> m_reservation ` set new"
      using each m by auto
    then have c: "distinct (map m_reservation (m # new))" using dist by simp
    have e: "length (m # new) \<le> length (r # rs)" using len by simp
    from a b c e same same' show ?thesis by metis
  qed
qed

lemma group_objects_create_simps:
  "groups (fst (group_objects_create d row)) = groups d @ [row\<lparr>g_id := seq_group d\<rparr>]"
  "seq_group (fst (group_objects_create d row)) = seq_group d + 1"
  "memberships (fst (group_objects_create d row)) = memberships d"
  "reservations (fst (group_objects_create d row)) = reservations d"
  "snd (group_objects_create d row) = row\<lparr>g_id := seq_group d\<rparr>"
  by (simp_all add: group_objects_create_def Let_def)

lemma members_fresh:
  "list_all (\<lambda>m. m_group m < seq_group d) (memberships d) \<Longrightarrow> members d (seq_group d) = []"
  by (auto simp add: members_def list_all_iff filter_empty_conv)

text \<open>One new group with its memberships, appended to a state that satisfies the invariant.\<close>

lemma group_inv_extend:
  assumes inv: "group_inv d"
    and groups: "groups d' = groups d @ [g]" and gid: "g_id g = seq_group d"
    and seq: "seq_group d' = seq_group d + 1"
    and mem: "memberships d' = memberships d @ new"
    and new: "\<forall>m \<in> set new. m_group m = seq_group d"
    and len: "length new \<le> g_max_participants g"
  shows "group_inv d'"
proof -
  from inv have i1: "\<forall>x \<in> set (groups d). g_id x < seq_group d"
    and i2: "\<forall>m \<in> set (memberships d). m_group m < seq_group d"
    and i3: "\<forall>x \<in> set (groups d). length (members d (g_id x)) \<le> g_max_participants x"
    by (simp_all add: group_inv_def list_all_iff)
  have old: "members d' k = members d k" if "k < seq_group d" for k
    using that new by (auto simp add: members_def mem filter_empty_conv)
  have fresh: "members d' (seq_group d) = new"
    using i2 new by (auto simp add: members_def mem filter_empty_conv filter_id_conv)
  have j1: "\<forall>x \<in> set (groups d'). g_id x < seq_group d'"
    using i1 by (auto simp add: groups seq gid)
  have j2: "\<forall>m \<in> set (memberships d'). m_group m < seq_group d'"
    using i2 new by (auto simp add: mem seq)
  have j3: "\<forall>x \<in> set (groups d'). length (members d' (g_id x)) \<le> g_max_participants x"
  proof
    fix x assume "x \<in> set (groups d')"
    then consider "x \<in> set (groups d)" | "x = g" by (auto simp add: groups)
    then show "length (members d' (g_id x)) \<le> g_max_participants x"
    proof cases
      case 1
      with i1 i3 old show ?thesis by simp
    next
      case 2
      with fresh len gid show ?thesis by simp
    qed
  qed
  from j1 j2 j3 show ?thesis by (simp add: group_inv_def list_all_iff)
qed

lemma create_group_main:
  assumes "cg_name req \<noteq> []" and "cg_meeting_point_name req \<noteq> []"
    and "cg_selected_reservations req \<noteq> []"
    and "meta_ordering (filter (\<lambda>r. r_id r \<in> set (cg_selected_reservations req) \<and>
                                   r_status r = CONFIRMED) (reservations d)) = first # rest"
    and "list_all (\<lambda>r. r_reservation_date r = r_reservation_date first) (first # rest)"
    and "cg_meeting_time req = Some t" and "cg_meeting_point_address req = Some addr"
  shows "create_group d req now =
     (case add_memberships
             (fst (group_objects_create d
                \<lparr>g_id = 0, g_name = cg_name req,
                 g_event_date = r_reservation_date first, g_activity_name = r_activity_name first,
                 g_meeting_point_name = cg_meeting_point_name req,
                 g_meeting_point_address = addr, g_meeting_time = t,
                 g_location_reveal_time = None,
                 g_max_participants = length (cg_selected_reservations req),
                 g_is_confirmed = True\<rparr>))
             (seq_group d) (first # rest) now of
        (d2, Some e) \<Rightarrow> (d2, Inl InternalError)
      | (d2, None) \<Rightarrow> (d2, Inr (seq_group d)))"
  using assms
  by (simp add: create_group_def Let_def group_objects_create_def
      split: prod.splits option.splits del: add_memberships.simps)

lemma create_group_other:
  assumes "cg_name req = [] \<or> cg_meeting_point_name req = [] \<or>
           cg_selected_reservations req = [] \<or>
           meta_ordering (filter (\<lambda>r. r_id r \<in> set (cg_selected_reservations req) \<and>
                                   r_status r = CONFIRMED) (reservations d)) = [] \<or>
           \<not> list_all (\<lambda>r. r_reservation_date r =
                            r_reservation_date (hd (meta_ordering
                              (filter (\<lambda>r. r_id r \<in> set (cg_selected_reservations req) \<and>
                                   r_status r = CONFIRMED) (reservations d)))))
               (meta_ordering (filter (\<lambda>r. r_id r \<in> set (cg_selected_reservations req) \<and>
                                   r_status r = CONFIRMED) (reservations d))) \<or>
           cg_meeting_time req = None \<or> cg_meeting_point_address req = None"
  shows "fst (create_group d req now) = d"
  using assms
  by (auto simp add: create_group_def Let_def
      split: list.splits option.splits simp del: add_memberships.simps)

lemma group_inv_create_group:
  assumes inv: "group_inv d"
  shows "group_inv (fst (create_group d req now))"
proof -
  let ?ids = "cg_selected_reservations req"
  let ?found = "meta_ordering (filter (\<lambda>r. r_id r \<in> set ?ids \<and> r_status r = CONFIRMED)
                  (reservations d))"
  let ?other = "cg_name req = [] \<or> cg_meeting_point_name req = [] \<or> ?ids = [] \<or>
           ?found = [] \<or>
           \<not> list_all (\<lambda>r. r_reservation_date r = r_reservation_date (hd ?found)) ?found \<or>
           cg_meeting_time req = None \<or> cg_meeting_point_address req = None"
  show ?thesis
  proof (cases ?other)
    case True
    then have "fst (create_group d req now) = d" by (rule create_group_other)
    with inv show ?thesis by simp
  next
    case False
    then obtain first rest t addr where found: "?found = first # rest"
      and t: "cg_meeting_time req = Some t" and addr: "cg_meeting_point_address req = Some addr"
      by (cases ?found) auto
    from False found have conds: "cg_name req \<noteq> []" "cg_meeting_point_name req \<noteq> []"
      "?ids \<noteq> []" "list_all (\<lambda>r. r_reservation_date r = r_reservation_date first) (first # rest)"
      by simp_all
    define row where "row = \<lparr>g_id = 0, g_name = cg_name req,
        g_event_date = r_reservation_date first, g_activity_name = r_activity_name first,
        g_meeting_point_name = cg_meeting_point_name req, g_meeting_point_address = addr,
        g_meeting_time = t, g_location_reveal_time = None,
        g_max_participants = length ?ids, g_is_confirmed = True\<rparr>"
    define d1 where "d1 = fst (group_objects_create d row)"
    define g where "g = row\<lparr>g_id := seq_group d\<rparr>"
    obtain d2 failure where loop: "add_memberships d1 (seq_group d) (first # rest) now = (d2, failure)"
      by (cases "add_memberships d1 (seq_group d) (first # rest) now")
    have "create_group d req now =
           (case add_memberships d1 (seq_group d) (first # rest) now of
              (d2, Some e) \<Rightarrow> (d2, Inl InternalError)
            | (d2, None) \<Rightarrow> (d2, Inr (seq_group d)))"
      unfolding d1_def row_def by (rule create_group_main [OF conds(1,2,3) found conds(4) t addr])
    then have res: "fst (create_group d req now) = d2"
      by (simp add: loop split: option.splits del: add_memberships.simps)
    from add_memberships_new [OF loop]
    obtain new where new: "memberships d2 = memberships d1 @ new"
      and each: "\<forall>m \<in> set new. m_group m = seq_group d \<and>
                          m_reservation m \<in> r_id ` set (first # rest) \<and>
                          m_reservation m \<notin> m_reservation ` set (memberships d1)"
      and dist: "distinct (map m_reservation new)"
      and same: "groups d2 = groups d1" "seq_group d2 = seq_group d1"
      by blast
    have "set (first # rest) = set ?found" by (simp only: found)
    also have "\<dots> \<subseteq> {r. r_id r \<in> set ?ids}" by (auto simp add: meta_ordering_def)
    finally have "r_id ` set (first # rest) \<subseteq> set ?ids" by blast
    moreover have "\<forall>m \<in> set new. m_reservation m \<in> r_id ` set (first # rest)"
      using each by blast
    ultimately have "\<forall>m \<in> set new. m_reservation m \<in> set ?ids" by blast
    then have sub: "set (map m_reservation new) \<subseteq> set ?ids" by auto
    have "length new = card (set (map m_reservation new))"
      using distinct_card [OF dist] by simp
    also have "\<dots> \<le> card (set ?ids)"
      using sub by (intro card_mono) simp_all
    also have "\<dots> \<le> length ?ids" by (rule card_length)
    finally have len: "length new \<le> g_max_participants g" by (simp add: g_def row_def)
    have "group_inv d2"
    proof (rule group_inv_extend [OF inv])
      show "groups d2 = groups d @ [g]"
        by (simp add: same d1_def g_def group_objects_create_simps)
      show "g_id g = seq_group d" by (simp add: g_def)
      show "seq_group d2 = seq_group d + 1"
        by (simp add: same d1_def group_objects_create_simps)
      show "memberships d2 = memberships d @ new"
        by (simp add: new d1_def group_objects_create_simps)
      show "\<forall>m \<in> set new. m_group m = seq_group d" using each by simp
      show "length new \<le> g_max_participants g" by (rule len)
    qed
    with res show ?thesis by simp
  qed
qed

declare create_chunks.simps [simp del]

lemma group_inv_create_chunks:
  "group_inv d \<Longrightarrow> group_inv (fst (create_chunks fmt d key rs i now))"
proof (induction fmt d key rs i now rule: create_chunks.induct)
  case (1 fmt d key rs i now)
  show ?case
  proof (cases "rs = []")
    case True
    with "1.prems" show ?thesis by (subst create_chunks.simps) simp
  next
    case False
    define row where "row = \<lparr>g_id = 0, g_name = fmt (snd key) (fst key) (i div 6 + 1),
        g_event_date = fst key, g_activity_name = snd key,
        g_meeting_point_name = [], g_meeting_point_address = [],
        g_meeting_time = time_hms 20 0 0, g_location_reveal_time = None,
        g_max_participants = 6, g_is_confirmed = True\<rparr>"
    define d1 where "d1 = fst (group_objects_create d row)"
    define g where "g = snd (group_objects_create d row)"
    have pair: "group_objects_create d row = (d1, g)" by (simp add: d1_def g_def)
    have gval: "g = row\<lparr>g_id := seq_group d\<rparr>" by (simp add: g_def group_objects_create_simps)
    obtain d2 failure where loop: "add_memberships d1 (g_id g) (take 6 rs) now = (d2, failure)"
      by (cases "add_memberships d1 (g_id g) (take 6 rs) now")
    from add_memberships_new [OF loop]
    obtain new where new: "memberships d2 = memberships d1 @ new"
      and each: "\<forall>m \<in> set new. m_group m = g_id g"
      and len: "length new \<le> length (take 6 rs)"
      and same: "groups d2 = groups d1" "seq_group d2 = seq_group d1"
      by blast
    have inv2: "group_inv d2"
    proof (rule group_inv_extend [OF "1.prems"])
      show "groups d2 = groups d @ [g]"
        by (simp add: same d1_def gval group_objects_create_simps)
      show "g_id g = seq_group d" by (simp add: gval)
      show "seq_group d2 = seq_group d + 1"
        by (simp add: same d1_def group_objects_create_simps)
      show "memberships d2 = memberships d @ new"
        by (simp add: new d1_def group_objects_create_simps)
      show "\<forall>m \<in> set new. m_group m = seq_group d" using each by (simp add: gval)
      show "length new \<le> g_max_participants g" using len by (simp add: gval row_def)
    qed
    show ?thesis
    proof (cases failure)
      case (Some e)
      have "create_chunks fmt d key rs i now = (d2, Some e)"
        using False pair [unfolded row_def] loop Some
        by (subst create_chunks.simps) (simp add: Let_def)
      with inv2 show ?thesis by simp
    next
      case None
      have step: "create_chunks fmt d key rs i now =
                  create_chunks fmt d2 key (drop 6 rs) (i + 6) now"
        using False pair [unfolded row_def] loop None
        by (subst create_chunks.simps) (simp add: Let_def)
      have "group_inv (fst (create_chunks fmt d2 key (drop 6 rs) (i + 6) now))"
        using False pair [unfolded row_def] loop None inv2
        by (intro "1.IH" [of "take 6 rs" "(d1, g)" d1 g "(d2, failure)" d2 failure]) simp_all
      with step show ?thesis by simp
    qed
  qed
qed

lemma group_inv_create_groups_loop:
  "group_inv d \<Longrightarrow> group_inv (fst (create_groups_loop fmt d items now))"
proof (induction items arbitrary: d)
  case Nil
  then show ?case by simp
next
  case (Cons item items)
  obtain key rs where item: "item = (key, rs)" by (cases item)
  obtain d1 failure where chunks: "create_chunks fmt d key rs 0 now = (d1, failure)"
    by (cases "create_chunks fmt d key rs 0 now")
  have inv1: "group_inv d1"
    using group_inv_create_chunks [OF Cons.prems, of fmt key rs 0 now] chunks by simp
  show ?case
  proof (cases failure)
    case None
    with item chunks Cons.IH [OF inv1] show ?thesis by simp
  next
    case (Some e)
    with item chunks inv1 show ?thesis by simp
  qed
qed

lemma group_inv_batch:
  "group_inv d \<Longrightarrow> group_inv (fst (create_groups_for_selected fmt d selected now))"
  by (simp add: create_groups_for_selected_def Let_def group_inv_create_groups_loop)

lemma group_inv_cong:
  "group_inv d \<Longrightarrow> groups d' = groups d \<Longrightarrow> memberships d' = memberships d \<Longrightarrow>
   seq_group d' = seq_group d \<Longrightarrow> group_inv d'"
  by (simp add: group_inv_def members_def)

lemma cancel_groups_unchanged:
  "groups (fst (reservation_cancel d u rid now)) = groups d \<and>
   memberships (fst (reservation_cancel d u rid now)) = memberships d \<and>
   seq_group (fst (reservation_cancel d u rid now)) = seq_group d"
proof -
  have a: "groups (reservation_update x r) = groups x \<and>
           memberships (reservation_update x r) = memberships x \<and>
           seq_group (reservation_update x r) = seq_group x" for x r
    by (simp add: reservation_update_def)
  have b: "groups (release_subscription_of x u r) = groups x \<and>
           memberships (release_subscription_of x u r) = memberships x \<and>
           seq_group (release_subscription_of x u r) = seq_group x" for x r
    by (simp add: release_subscription_of_def split: option.splits)
  have c: "groups (fst (ticket_objects_create x u a st src orig ex nt)) = groups x \<and>
           memberships (fst (ticket_objects_create x u a st src orig ex nt)) = memberships x \<and>
           seq_group (fst (ticket_objects_create x u a st src orig ex nt)) = seq_group x"
    for x a st src orig ex nt
    by (simp add: ticket_objects_create_def Let_def)
  show ?thesis
  proof (cases "objects_get (reservations d) (\<lambda>r. r_id r = rid \<and> r_user r = u)")
    case DoesNotExist
    then show ?thesis by (simp add: cancel_not_found)
  next
    case MultipleObjectsReturned
    then show ?thesis by (simp add: cancel_multiple)
  next
    case (Found r)
    show ?thesis
    proof (cases "now > combine (r_reservation_date r - 2) (time_hms 23 59 0)")
      case True
      with Found show ?thesis by (simp add: cancel_deadline_passed)
    next
      case False
      have "(r_paid_at r \<noteq> None \<and> r_price_plan r = ''TICKET'' \<and>
             \<not> startswith (r_stripe_payment_intent_id r) ''ticket_'' \<and>
             \<not> startswith (r_stripe_payment_intent_id r) ''subscription_'') \<or>
            (r_paid_at r \<noteq> None \<and> startswith (r_stripe_payment_intent_id r) ''subscription_'') \<or>
            ((\<not> r_paid_at r \<noteq> None \<or>
              \<not> startswith (r_stripe_payment_intent_id r) ''subscription_'') \<and>
             (\<not> r_paid_at r \<noteq> None \<or> \<not> r_price_plan r = ''TICKET'' \<or>
              startswith (r_stripe_payment_intent_id r) ''ticket_''))"
        by (rule refund_cases)
      then consider
          (issue) "r_paid_at r \<noteq> None" "r_price_plan r = ''TICKET''"
            "\<not> startswith (r_stripe_payment_intent_id r) ''ticket_''"
            "\<not> startswith (r_stripe_payment_intent_id r) ''subscription_''"
        | (sub) "r_paid_at r \<noteq> None"
            "startswith (r_stripe_payment_intent_id r) ''subscription_''"
        | (other) "r_paid_at r = None \<or>
                   \<not> startswith (r_stripe_payment_intent_id r) ''subscription_''"
            "r_paid_at r = None \<or> r_price_plan r \<noteq> ''TICKET'' \<or>
             startswith (r_stripe_payment_intent_id r) ''ticket_''"
        by (elim disjE conjE) simp_all
      then show ?thesis
      proof cases
        case issue
        from cancel_issue [OF Found False issue] show ?thesis by (simp add: a c)
      next
        case sub
        from cancel_no_issue_sub [OF Found False sub] show ?thesis by (simp add: a b)
      next
        case other
        from cancel_no_issue_other [OF Found False other] show ?thesis by (simp add: a)
      qed
    qed
  qed
qed

lemma reachable_group_inv: "reachable_by_operations d \<Longrightarrow> group_inv d"
proof (induction rule: reachable_by_operations.induct)
  case init
  show ?case by (simp add: group_inv_def empty_db_def)
next
  case (manual d req now)
  then show ?case by (simp add: group_inv_create_group)
next
  case (batch d fmt selected now)
  then show ?case by (simp add: group_inv_batch)
next
  case (cancel d user reservation_id now)
  note same = cancel_groups_unchanged [of d user reservation_id now]
  from cancel.IH same [THEN conjunct1] same [THEN conjunct2, THEN conjunct1]
    same [THEN conjunct2, THEN conjunct2]
  show ?case by (rule group_inv_cong)
next
  case (other d d')
  from other.IH other.hyps(2,3,4) show ?case by (rule group_inv_cong)
qed

text \<open>
  C9 (as amended). In every state that the operations of the application reach from the
  empty database without the change form of a group in the administration site, every
  group has at most \<open>max_participants\<close> memberships whose reservation is CONFIRMED. In
  particular this holds right after a manual or a batch group creation, and after a
  cancellation.
\<close>

theorem group_capacity_invariant:
  assumes "reachable_by_operations d"
  shows "(\<forall>g \<in> set (groups d). participants_count d g \<le> g_max_participants g)
       \<and> (\<forall>g \<in> set (groups (fst (create_group d req now))).
             participants_count (fst (create_group d req now)) g \<le> g_max_participants g)
       \<and> (\<forall>g \<in> set (groups (fst (create_groups_for_selected fmt d selected now))).
             participants_count (fst (create_groups_for_selected fmt d selected now)) g
               \<le> g_max_participants g)
       \<and> (\<forall>g \<in> set (groups (fst (reservation_cancel d u rid now))).
             participants_count (fst (reservation_cancel d u rid now)) g
               \<le> g_max_participants g)"
proof -
  have bound: "\<forall>g \<in> set (groups x). participants_count x g \<le> g_max_participants g"
    if "reachable_by_operations x" for x
  proof
    fix g assume g: "g \<in> set (groups x)"
    from that have "group_inv x" by (rule reachable_group_inv)
    with g have "length (members x (g_id g)) \<le> g_max_participants g"
      by (simp add: group_inv_def list_all_iff)
    with participants_count_le_members [of x g]
    show "participants_count x g \<le> g_max_participants g" by simp
  qed
  from assms have "reachable_by_operations (fst (create_group d req now))"
    and "reachable_by_operations (fst (create_groups_for_selected fmt d selected now))"
    and "reachable_by_operations (fst (reservation_cancel d u rid now))"
    by (rule reachable_by_operations.manual, rule reachable_by_operations.batch, rule reachable_by_operations.cancel)
  with assms bound show ?thesis by blast
qed


theorem group_capacity_invariant_witness:
  "reachable_by_operations db_two \<and>
   length (groups (fst (create_group db_two (group_request [1, 2]) 0))) = 1 \<and>
   participants_count (fst (create_group db_two (group_request [1, 2]) 0))
       (hd (groups (fst (create_group db_two (group_request [1, 2]) 0))))
     \<le> g_max_participants (hd (groups (fst (create_group db_two (group_request [1, 2]) 0))))"
proof -
  let ?d = "fst (create_group db_two (group_request [1, 2]) 0)"
  have "reachable_by_operations empty_db" by (rule reachable_by_operations.init)
  moreover have "groups db_two = groups empty_db" "memberships db_two = memberships empty_db"
    "seq_group db_two = seq_group empty_db"
    by (simp_all add: db_two_def db_of_def empty_db_def)
  ultimately have reach: "reachable_by_operations db_two" by (rule reachable_by_operations.other)
  have one: "length (groups ?d) = 1"
    by (simp add: create_group_def group_request_def db_two_def db_of_def res_b_def res_thu_def
        meta_ordering_def group_objects_create_def membership_objects_create_def Let_def
        time_hms_def)
  then have "groups ?d \<noteq> []" by auto
  then have "hd (groups ?d) \<in> set (groups ?d)" by (rule hd_in_set)
  with group_capacity_invariant [OF reach, of "group_request [1, 2]" 0]
  have "participants_count ?d (hd (groups ?d)) \<le> g_max_participants (hd (groups ?d))"
    by blast
  with reach one show ?thesis by simp
qed

lemma reachable_by_operations_reachable: "reachable_by_operations d \<Longrightarrow> reachable d"
proof (induction rule: reachable_by_operations.induct)
  case init
  show ?case by (rule reachable.init)
next
  case (manual d req now)
  then show ?case by (simp add: reachable.manual)
next
  case (batch d fmt selected now)
  then show ?case by (simp add: reachable.batch)
next
  case (cancel d user reservation_id now)
  then show ?case by (simp add: reachable.cancel)
next
  case (other d d')
  from other.IH other.hyps(2,3,4) show ?case by (rule reachable.other)
qed

text \<open>
  C9 as stated fails: the change form of the administration site stores any
  \<open>max_participants\<close>. After the manual creation of a group of the two confirmed
  reservations, the administrator saves the form of that group with \<open>max_participants\<close>
  set to 1: the state is reachable, and the group has 2 participants for a maximum of 1.
\<close>

theorem group_capacity_change_form_counterexample:
  "reachable db_edited \<and>
   map (participants_count db_edited) (groups db_edited) = [2] \<and>
   map g_max_participants (groups db_edited) = [1]"
proof -
  have "reachable_by_operations empty_db" by (rule reachable_by_operations.init)
  moreover have "groups db_two = groups empty_db" "memberships db_two = memberships empty_db"
    "seq_group db_two = seq_group empty_db"
    by (simp_all add: db_two_def db_of_def empty_db_def)
  ultimately have "reachable_by_operations db_two" by (rule reachable_by_operations.other)
  then have "reachable db_two" by (rule reachable_by_operations_reachable)
  then have "reachable db_grouped" unfolding db_grouped_def by (rule reachable.manual)
  then have reach: "reachable db_edited" unfolding db_edited_def by (rule reachable.change_form)
  have grouped: "db_grouped =
     db_two\<lparr>groups := [\<lparr>g_id = 1, g_name = ''G1'', g_event_date = 739050,
                          g_activity_name = ''Bowling'', g_meeting_point_name = ''Bar'',
                          g_meeting_point_address = ''1 rue X'', g_meeting_time = time_hms 20 0 0,
                          g_location_reveal_time = None, g_max_participants = 2,
                          g_is_confirmed = True\<rparr>],
             seq_group := 2,
             memberships := [\<lparr>m_id = 1, m_reservation = 1, m_group = 1, m_joined_at = 0\<rparr>,
                             \<lparr>m_id = 2, m_reservation = 2, m_group = 1, m_joined_at = 0\<rparr>],
             seq_membership := 3\<rparr>"
    by (simp add: db_grouped_def create_group_def group_request_def db_two_def db_of_def
        res_b_def res_thu_def meta_ordering_def group_objects_create_def
        membership_objects_create_def Let_def)
  have count: "map (participants_count db_edited) (groups db_edited) = [2]"
    by (simp add: db_edited_def grouped admin_change_group_def participants_count_def
        db_two_def db_of_def res_b_def res_thu_def)
  have max: "map g_max_participants (groups db_edited) = [1]"
    by (simp add: db_edited_def grouped admin_change_group_def)
  from reach count max show ?thesis by simp
qed

section \<open>Manual group creation\<close>

lemma add_memberships_success:
  "distinct (map r_id rs) \<Longrightarrow>
   \<forall>r \<in> set rs. \<forall>m \<in> set (memberships d). m_reservation m \<noteq> r_id r \<Longrightarrow>
   add_memberships d gid rs now =
     (d\<lparr>memberships := memberships d @
           map (\<lambda>(k, r). \<lparr>m_id = k, m_reservation = r_id r, m_group = gid, m_joined_at = now\<rparr>)
             (enumerate (seq_membership d) rs),
        seq_membership := seq_membership d + length rs\<rparr>, None)"
proof (induction rs arbitrary: d)
  case Nil
  show ?case by simp
next
  case (Cons r rs)
  define d1 where "d1 = d\<lparr>memberships := memberships d @
                     [\<lparr>m_id = seq_membership d, m_reservation = r_id r,
                       m_group = gid, m_joined_at = now\<rparr>],
                   seq_membership := seq_membership d + 1\<rparr>"
  have create: "membership_objects_create d gid (r_id r) now = Inr d1"
    using Cons.prems(2) by (auto simp add: membership_objects_create_def list_ex_iff d1_def)
  have "distinct (map r_id rs)" using Cons.prems(1) by simp
  moreover have "\<forall>x \<in> set rs. \<forall>m \<in> set (memberships d1). m_reservation m \<noteq> r_id x"
    using Cons.prems by (auto simp add: d1_def)
  ultimately have "add_memberships d1 gid rs now =
     (d1\<lparr>memberships := memberships d1 @
           map (\<lambda>(k, r). \<lparr>m_id = k, m_reservation = r_id r, m_group = gid, m_joined_at = now\<rparr>)
             (enumerate (seq_membership d1) rs),
        seq_membership := seq_membership d1 + length rs\<rparr>, None)"
    by (rule Cons.IH)
  then show ?case by (simp add: create d1_def)
qed

text \<open>
  C8 (as amended). The manual group creation fails with a validation error, and writes
  nothing, if the list of reservation ids is empty, if none of the ids refers to a
  CONFIRMED reservation, or if the CONFIRMED reservations among the referenced ones span
  several dates. Ids that are missing or refer to a reservation that is not CONFIRMED are
  dropped. On success (name, meeting point, address and time given, and none of the
  reservations found already in a group) it creates exactly one group, whose
  \<open>max_participants\<close> is the length of the id list, with one membership per CONFIRMED
  reservation found.
\<close>

theorem create_group_validation:
  fixes d req now
  defines "found \<equiv> meta_ordering (filter (\<lambda>r. r_id r \<in> set (cg_selected_reservations req) \<and>
                                             r_status r = CONFIRMED) (reservations d))"
  shows "(cg_selected_reservations req = [] \<longrightarrow> create_group d req now = (d, Inl ValidationError))
   \<and> (found = [] \<longrightarrow> create_group d req now = (d, Inl ValidationError))
   \<and> ((\<exists>r \<in> set found. \<exists>r' \<in> set found. r_reservation_date r \<noteq> r_reservation_date r') \<longrightarrow>
        create_group d req now = (d, Inl ValidationError))
   \<and> (cg_name req \<noteq> [] \<and> cg_meeting_point_name req \<noteq> [] \<and> found \<noteq> [] \<and>
      (\<forall>r \<in> set found. r_reservation_date r = r_reservation_date (hd found)) \<and>
      cg_meeting_time req \<noteq> None \<and> cg_meeting_point_address req \<noteq> None \<and>
      distinct (map r_id found) \<and> (\<forall>r \<in> set found. \<not> has_group d r) \<longrightarrow>
        create_group d req now =
          (d\<lparr>groups := groups d @
                 [\<lparr>g_id = seq_group d, g_name = cg_name req,
                   g_event_date = r_reservation_date (hd found),
                   g_activity_name = r_activity_name (hd found),
                   g_meeting_point_name = cg_meeting_point_name req,
                   g_meeting_point_address = the (cg_meeting_point_address req),
                   g_meeting_time = the (cg_meeting_time req),
                   g_location_reveal_time = None,
                   g_max_participants = length (cg_selected_reservations req),
                   g_is_confirmed = True\<rparr>],
              seq_group := seq_group d + 1,
              memberships := memberships d @ new_memberships d found now,
              seq_membership := seq_membership d + length found\<rparr>,
           Inr (seq_group d)))"
proof (intro conjI impI)
  assume "cg_selected_reservations req = []"
  then show "create_group d req now = (d, Inl ValidationError)"
    by (simp add: create_group_def)
next
  assume "found = []"
  then show "create_group d req now = (d, Inl ValidationError)"
    by (simp add: create_group_def found_def Let_def)
next
  assume "\<exists>r \<in> set found. \<exists>r' \<in> set found. r_reservation_date r \<noteq> r_reservation_date r'"
  then obtain r r' where r: "r \<in> set found" "r' \<in> set found"
    "r_reservation_date r \<noteq> r_reservation_date r'" by blast
  then obtain first rest where fr: "found = first # rest" by (cases found) auto
  have "\<not> list_all (\<lambda>x. r_reservation_date x = r_reservation_date first) found"
  proof
    assume "list_all (\<lambda>x. r_reservation_date x = r_reservation_date first) found"
    with r(1,2) have "r_reservation_date r = r_reservation_date first"
      "r_reservation_date r' = r_reservation_date first"
      by (simp_all add: list_all_iff)
    with r(3) show False by simp
  qed
  then show "create_group d req now = (d, Inl ValidationError)"
    using fr [unfolded found_def] unfolding found_def
    by (simp add: create_group_def Let_def del: add_memberships.simps)
next
  assume a: "cg_name req \<noteq> [] \<and> cg_meeting_point_name req \<noteq> [] \<and> found \<noteq> [] \<and>
      (\<forall>r \<in> set found. r_reservation_date r = r_reservation_date (hd found)) \<and>
      cg_meeting_time req \<noteq> None \<and> cg_meeting_point_address req \<noteq> None \<and>
      distinct (map r_id found) \<and> (\<forall>r \<in> set found. \<not> has_group d r)"
  then obtain first rest t addr where fr: "found = first # rest"
    and t: "cg_meeting_time req = Some t" and addr: "cg_meeting_point_address req = Some addr"
    by (cases found) auto
  have ids: "cg_selected_reservations req \<noteq> []"
    using fr by (auto simp add: found_def meta_ordering_def)
  have same: "list_all (\<lambda>r. r_reservation_date r = r_reservation_date first) (first # rest)"
    using a fr by (simp add: list_all_iff)
  define row where "row = \<lparr>g_id = 0, g_name = cg_name req,
        g_event_date = r_reservation_date first, g_activity_name = r_activity_name first,
        g_meeting_point_name = cg_meeting_point_name req, g_meeting_point_address = addr,
        g_meeting_time = t, g_location_reveal_time = None,
        g_max_participants = length (cg_selected_reservations req), g_is_confirmed = True\<rparr>"
  define d1 where "d1 = fst (group_objects_create d row)"
  have main: "create_group d req now =
           (case add_memberships d1 (seq_group d) (first # rest) now of
              (d2, Some e) \<Rightarrow> (d2, Inl InternalError)
            | (d2, None) \<Rightarrow> (d2, Inr (seq_group d)))"
    unfolding d1_def row_def
    using a ids fr [unfolded found_def] same t addr by (intro create_group_main) simp_all
  have "distinct (map r_id (first # rest))" using a fr by simp
  moreover have "\<forall>r \<in> set (first # rest). \<forall>m \<in> set (memberships d1). m_reservation m \<noteq> r_id r"
    using a fr by (simp add: has_group_def list_ex_iff d1_def group_objects_create_simps)
  ultimately have loop: "add_memberships d1 (seq_group d) (first # rest) now =
     (d1\<lparr>memberships := memberships d1 @
           map (\<lambda>(k, r). \<lparr>m_id = k, m_reservation = r_id r, m_group = seq_group d,
                           m_joined_at = now\<rparr>)
             (enumerate (seq_membership d1) (first # rest)),
        seq_membership := seq_membership d1 + length (first # rest)\<rparr>, None)"
    by (rule add_memberships_success)
  show "create_group d req now =
          (d\<lparr>groups := groups d @
                 [\<lparr>g_id = seq_group d, g_name = cg_name req,
                   g_event_date = r_reservation_date (hd found),
                   g_activity_name = r_activity_name (hd found),
                   g_meeting_point_name = cg_meeting_point_name req,
                   g_meeting_point_address = the (cg_meeting_point_address req),
                   g_meeting_time = the (cg_meeting_time req),
                   g_location_reveal_time = None,
                   g_max_participants = length (cg_selected_reservations req),
                   g_is_confirmed = True\<rparr>],
              seq_group := seq_group d + 1,
              memberships := memberships d @ new_memberships d found now,
              seq_membership := seq_membership d + length found\<rparr>,
           Inr (seq_group d))"
    unfolding main loop
    by (simp add: d1_def row_def group_objects_create_def Let_def new_memberships_def fr t addr
        del: enumerate_simps)
qed


theorem create_group_validation_witness:
  "create_group db_two (group_request []) 0 = (db_two, Inl ValidationError) \<and>
   snd (create_group db_two (group_request [1, 2]) 0) = Inr 1 \<and>
   map g_max_participants (groups (fst (create_group db_two (group_request [1, 2]) 0))) = [2] \<and>
   map m_reservation (memberships (fst (create_group db_two (group_request [1, 2]) 0))) = [1, 2]"
proof -
  have empty: "cg_selected_reservations (group_request []) = []"
    by (simp add: group_request_def)
  have found: "meta_ordering (filter (\<lambda>r. r_id r \<in> set (cg_selected_reservations
                   (group_request [1, 2])) \<and> r_status r = CONFIRMED) (reservations db_two))
               = [res_thu, res_b]"
    by (simp add: meta_ordering_def group_request_def db_two_def db_of_def res_b_def res_thu_def)
  have ok: "cg_name (group_request [1, 2]) \<noteq> []"
    "cg_meeting_point_name (group_request [1, 2]) \<noteq> []"
    "cg_meeting_time (group_request [1, 2]) \<noteq> None"
    "cg_meeting_point_address (group_request [1, 2]) \<noteq> None"
    "r_reservation_date res_b = r_reservation_date res_thu"
    "r_id res_thu = 1" "r_id res_b = 2" "\<not> has_group db_two res_thu" "\<not> has_group db_two res_b"
    "groups db_two = []" "memberships db_two = []" "seq_group db_two = 1"
    "seq_membership db_two = 1" "length (cg_selected_reservations (group_request [1, 2])) = 2"
    by (simp_all add: group_request_def res_b_def res_thu_def has_group_def db_two_def db_of_def)
  from create_group_validation [where d = db_two and req = "group_request []" and now = 0]
  have a: "create_group db_two (group_request []) 0 = (db_two, Inl ValidationError)"
    using empty by blast
  from create_group_validation [where d = db_two and req = "group_request [1, 2]" and now = 0]
  have b: "create_group db_two (group_request [1, 2]) 0 =
          (db_two\<lparr>groups := groups db_two @
                 [\<lparr>g_id = seq_group db_two, g_name = cg_name (group_request [1, 2]),
                   g_event_date = r_reservation_date (hd [res_thu, res_b]),
                   g_activity_name = r_activity_name (hd [res_thu, res_b]),
                   g_meeting_point_name = cg_meeting_point_name (group_request [1, 2]),
                   g_meeting_point_address = the (cg_meeting_point_address (group_request [1, 2])),
                   g_meeting_time = the (cg_meeting_time (group_request [1, 2])),
                   g_location_reveal_time = None,
                   g_max_participants = length (cg_selected_reservations (group_request [1, 2])),
                   g_is_confirmed = True\<rparr>],
              seq_group := seq_group db_two + 1,
              memberships := memberships db_two @ new_memberships db_two [res_thu, res_b] 0,
              seq_membership := seq_membership db_two + length [res_thu, res_b]\<rparr>,
           Inr (seq_group db_two))"
    unfolding found using ok by simp
  show ?thesis unfolding b using a ok by (simp add: new_memberships_def)
qed

text \<open>
  C8 as stated fails: of the ids 1 and 99 only 1 refers to a reservation, yet the request
  succeeds; it creates a group with \<open>max_participants = 2\<close> and a single membership.
\<close>

theorem create_group_missing_id_counterexample:
  "map r_id (reservations db_two) = [1, 2] \<and>
   snd (create_group db_two (group_request [1, 99]) 0) = Inr 1 \<and>
   map g_max_participants (groups (fst (create_group db_two (group_request [1, 99]) 0))) = [2] \<and>
   map m_reservation (memberships (fst (create_group db_two (group_request [1, 99]) 0))) = [1]"
  by (simp add: create_group_def group_request_def db_two_def db_of_def res_b_def res_thu_def
      meta_ordering_def group_objects_create_def membership_objects_create_def Let_def
      time_hms_def)

section \<open>Confirming a payment twice\<close>

lemma seq_reservation_ticket_objects_create:
  "seq_reservation (fst (ticket_objects_create d u a st src orig ex nt)) = seq_reservation d"
  by (simp add: ticket_objects_create_def Let_def)

lemma reservation_objects_create_simps:
  "reservations (fst (reservation_objects_create d row)) =
     reservations d @ [reservation_save (row\<lparr>r_id := seq_reservation d\<rparr>)]"
  "snd (reservation_objects_create d row) = reservation_save (row\<lparr>r_id := seq_reservation d\<rparr>)"
  "tickets (fst (reservation_objects_create d row)) = tickets d"
  "seq_ticket (fst (reservation_objects_create d row)) = seq_ticket d"
  "seq_reservation (fst (reservation_objects_create d row)) = seq_reservation d + 1"
  by (simp_all add: reservation_objects_create_def Let_def)

lemma dev_create_fails:
  "\<not> dev_ok data \<Longrightarrow> \<exists>e. confirm_dev_create note d u pid data now = (d, Inl e)"
  by (auto simp add: dev_ok_def confirm_dev_create_def split: field.splits option.splits)

lemma dev_create_succeeds:
  assumes "dev_ok data"
  shows "\<exists>r. snd (confirm_dev_create note d u pid data now) = Inr r \<and>
             reservations (fst (confirm_dev_create note d u pid data now)) = reservations d @ [r] \<and>
             r_status r = CONFIRMED \<and> r_user r = u \<and> r_id r = seq_reservation d \<and>
             r_stripe_payment_intent_id r = pid \<and>
             seq_reservation (fst (confirm_dev_create note d u pid data now)) =
               seq_reservation d + 1 \<and>
             tickets (fst (confirm_dev_create note d u pid data now)) =
               (if rd_price_plan data = Some ''ticket''
                then tickets d @ [\<lparr>t_id = seq_ticket d, t_user = u,
                        t_amount = the (rd_price_amount data), t_status = ACTIVE,
                        t_source = REFUND, t_original_reservation = None,
                        t_used_for_reservation = None, t_expires_at = Some (now + days 365),
                        t_used_at = None, t_notes = note (seq_reservation d)\<rparr>]
                else tickets d)"
proof -
  from assms obtain dt a p m where v: "rd_reservation_date data = Value dt"
    "rd_activity_name data = Some a" "rd_price_plan data = Some p" "rd_price_amount data = Some m"
    and t: "rd_reservation_time data \<noteq> Invalid"
    by (auto simp add: dev_ok_def split: field.splits)
  from t obtain tm where tm: "(case rd_reservation_time data of
           Absent \<Rightarrow> Some (time_hms 20 0 0) | Invalid \<Rightarrow> None | Value t \<Rightarrow> Some t) = Some tm"
    by (cases "rd_reservation_time data") simp_all
  show ?thesis
    by (simp add: confirm_dev_create_def v tm split_def Let_def reservation_objects_create_simps
        ticket_objects_create_simps seq_reservation_ticket_objects_create reservation_save_fields)
qed


lemma production_fails:
  "\<not> production_ok stripe pid \<Longrightarrow> \<exists>e. confirm_production stripe d u pid now = (d, Inl e)"
  by (auto simp add: production_ok_def confirm_production_def split: field.splits option.splits)

lemma production_succeeds:
  assumes "production_ok stripe pid"
  shows "\<exists>r. snd (confirm_production stripe d u pid now) = Inr r \<and>
             reservations (fst (confirm_production stripe d u pid now)) = reservations d @ [r] \<and>
             r_status r = CONFIRMED \<and> r_user r = u \<and> r_id r = seq_reservation d \<and>
             r_stripe_payment_intent_id r = pid \<and>
             seq_reservation (fst (confirm_production stripe d u pid now)) =
               seq_reservation d + 1 \<and>
             tickets (fst (confirm_production stripe d u pid now)) = tickets d"
proof -
  from assms obtain intent dt where v: "stripe pid = Some intent"
    "pi_status intent = ''succeeded''" "pi_reservation_date intent = Value dt"
    by (auto simp add: production_ok_def split: option.splits field.splits)
  show ?thesis
    by (simp add: confirm_production_def v split_def Let_def reservation_objects_create_simps
        reservation_save_fields)
qed

lemma dev_pending_once:
  assumes one: "filter (\<lambda>r. r_user r = u \<and> r_status r = PENDING) (reservations d) = [r0]"
  shows "confirm_dev_pending (fst (confirm_dev_pending d u pid now)) u pid now' =
           (fst (confirm_dev_pending d u pid now), Inl NotFound)"
proof -
  let ?r = "r0\<lparr>r_status := CONFIRMED, r_paid_at := Some now, r_stripe_payment_intent_id := pid\<rparr>"
  define d1 where "d1 = fst (confirm_dev_pending d u pid now)"
  have "d1 = reservation_update d ?r"
    by (simp add: d1_def confirm_dev_pending_def one Let_def)
  then have res: "reservations d1 = update_row r_id (reservation_save ?r) (reservations d)"
    by simp
  have "filter (\<lambda>r. r_user r = u \<and> r_status r = PENDING)
          (update_row r_id (reservation_save ?r) (reservations d)) = []"
    using one by (rule filter_update_row_none) (simp_all add: reservation_save_fields)
  then have "confirm_dev_pending d1 u pid now' = (d1, Inl NotFound)"
    by (simp add: confirm_dev_pending_def res)
  then show ?thesis by (simp add: d1_def)
qed



lemma confirm_bowling_once:
  "snd (confirm_payment no_stripe no_note empty_db 1 (dev_request (Some bowling_data)) 5) =
     Inr (reservation_save
       \<lparr>r_id = 1, r_user = 1, r_activity_name = ''Bowling'', r_activity_description = [],
        r_reservation_date = 739050, r_reservation_time = time_hms 20 0 0,
        r_venue_name = ''Paris'', r_venue_address = [], r_price_plan = ''ticket'',
        r_price_amount = 2500, r_currency = ''EUR'', r_status = CONFIRMED,
        r_stripe_payment_intent_id = ''pi_test_local_dev'', r_paid_at = Some 5,
        r_participants_count = 1, r_special_requests = [], r_cancellation_deadline = None\<rparr>)"
  by (simp add: confirm_payment_def confirm_dev_create_def dev_request_def bowling_data_def
      empty_db_def reservation_objects_create_def ticket_objects_create_def get_default_def
      Let_def)



section \<open>The deadline of two days before the date\<close>

text \<open>
  The cancel view and the reservation with a subscription do not read the Tuesday that
  \<^verbatim>\<open>set_cancellation_deadline\<close> computes: both take the day two days before the reservation
  date, at 23:59:00. The two agree for a reservation on a Thursday and on no other day.
\<close>

lemma subscription_deadline:
  assumes "create_reservation_with_subscription d user data now = (d', Inr r)"
  shows "r_cancellation_deadline r = Some (combine (r_reservation_date r - 2) (time_hms 23 59 0))"
  using assms
  by (auto simp add: create_reservation_with_subscription_def Let_def split_def
      reservation_objects_create_def reservation_save_fields
      split: option.splits sum.splits bool.splits field.splits)

lemma subscription_deadline_saturday:
  "map r_cancellation_deadline
     (reservations (fst (create_reservation_with_subscription
        (empty_db\<lparr>subscriptions := [sub_free]\<rparr>) 1 saturday_data (combine 739040 0))))
   = [Some (combine 739050 (time_hms 23 59 0))] \<and> weekday 739050 = 3"
  by (simp add: create_reservation_with_subscription_def get_active_subscription_def
      can_make_reservation_def subscription_is_active_def objects_first_def newest_first_def
      sub_free_def sub0_def saturday_data_def bowling_data_def empty_db_def
      reservation_objects_create_def reservation_update_def reservation_save_def
      set_cancellation_deadline_def update_row_def get_default_def weekday_def combine_def
      time_hms_def Let_def)

lemma cancel_saturday_after_deadline:
  "r_cancellation_deadline res_sat = Some (combine 739048 (time_hms 23 59 0)) \<and>
   \<not> is_modifiable res_sat (combine 739049 (time_hms 12 0 0)) \<and>
   snd (reservation_cancel (db_of res_sat) 1 1 (combine 739049 (time_hms 12 0 0))) =
     Inr \<lparr>ticket_created = True, ticket_amount = Some 2500\<rparr>"
  by (simp add: res_sat_def res_thu_def db_of_def reservation_cancel_def objects_get_def
      is_modifiable_def startswith_def combine_def time_hms_def Let_def)

text \<open>
  The scenario of the subscriber: a reservation made with the subscription is CONFIRMED,
  paid, of amount 0 and held by the subscription; cancelling it before the deadline
  releases the subscription and issues no ticket.
\<close>

lemma subscriber_scenario:
  "map r_status (reservations (fst (create_reservation_with_subscription
      (empty_db\<lparr>subscriptions := [sub_free]\<rparr>) 1 bowling_data (combine 739040 0))))
     = [CONFIRMED] \<and>
   map s_current_reservation (subscriptions (fst (create_reservation_with_subscription
      (empty_db\<lparr>subscriptions := [sub_free]\<rparr>) 1 bowling_data (combine 739040 0))))
     = [Some 1] \<and>
   snd (reservation_cancel (fst (create_reservation_with_subscription
      (empty_db\<lparr>subscriptions := [sub_free]\<rparr>) 1 bowling_data (combine 739040 0)))
      1 1 (combine 739041 0)) = Inr \<lparr>ticket_created = False, ticket_amount = None\<rparr> \<and>
   map s_current_reservation (subscriptions (fst (reservation_cancel
      (fst (create_reservation_with_subscription
        (empty_db\<lparr>subscriptions := [sub_free]\<rparr>) 1 bowling_data (combine 739040 0)))
      1 1 (combine 739041 0)))) = [None] \<and>
   tickets (fst (reservation_cancel
      (fst (create_reservation_with_subscription
        (empty_db\<lparr>subscriptions := [sub_free]\<rparr>) 1 bowling_data (combine 739040 0)))
      1 1 (combine 739041 0))) = []"
  by (simp add: create_reservation_with_subscription_def get_active_subscription_def
      can_make_reservation_def subscription_is_active_def objects_first_def newest_first_def
      sub_free_def sub0_def bowling_data_def empty_db_def use_for_reservation_def
      reservation_objects_create_def reservation_update_def reservation_save_def
      set_cancellation_deadline_def update_row_def get_default_def weekday_def combine_def
      time_hms_def Let_def str_nat.simps reservation_cancel_def objects_get_def
      startswith_def release_subscription_of_def release_reservation_def)


end
